theory Spec2Isabelle
  imports Complex_Main "HOL-Library.Sublist"
begin

section \<open>Bucket profiles (internal/buckets.go)\<close>

text \<open>
  A Go \<^verbatim>\<open>float64\<close> that the package only stores, compares and passes on is modelled by the
  rational number its literal denotes. A Go slice that may be \<^verbatim>\<open>nil\<close> is a
  \<open>list option\<close>: \<open>None\<close> is the nil slice, \<open>Some []\<close> the empty slice that is
  not nil (\<^verbatim>\<open>[]float64{}\<close>).
\<close>

type_synonym float64 = rat

definition DefaultHTTPBuckets :: "float64 list" where
  "DefaultHTTPBuckets = [5/1000, 1/100, 25/1000, 5/100, 1/10, 25/100, 5/10, 1, 25/10, 5, 10]"

definition DefaultLLMLatencyBuckets :: "float64 list" where
  "DefaultLLMLatencyBuckets = [1/10, 25/100, 5/10, 1, 2, 5, 10, 20, 30, 60, 120]"

definition DefaultMemoryBuckets :: "float64 list" where
  "DefaultMemoryBuckets = [50, 100, 250, 500, 1000, 2000, 5000, 10000]"

section \<open>The metrics library the package is built on\<close>

text \<open>
  The registry, the descriptors and the metric vectors belong to the Prometheus client
  library, which is not part of the repository. They are modelled as far as the package
  uses them: a descriptor with its fully-qualified name, a registry that refuses an invalid
  descriptor and a name it already holds, and vectors that keep one child per combination
  of label values and refuse a call with the wrong number of label values.
\<close>

datatype error =
    ErrInvalidDesc
  | ErrAlreadyRegistered string
  | ErrFailedToRegister string string error
  | PanicMustRegister error
  | PanicLabelCardinality

record Desc =
  fqName :: string
  helpText :: string
  variableLabels :: "string list"

text \<open>
  Modelled from the spec: the naming convention of the spec's section 6, namespace, subsystem
  and name joined by underscores, as the library's \<^verbatim>\<open>BuildFQName\<close> computes it: the
  non-empty parts are joined, and an empty name stays empty.
\<close>

definition BuildFQName :: "string \<Rightarrow> string \<Rightarrow> string \<Rightarrow> string" where
  "BuildFQName ns ss name =
     (if name = [] then []
      else if ns \<noteq> [] \<and> ss \<noteq> [] then ns @ ''_'' @ ss @ ''_'' @ name
      else if ns \<noteq> [] then ns @ ''_'' @ name
      else if ss \<noteq> [] then ss @ ''_'' @ name
      else name)"

text \<open>
  What makes a name and a label list valid is the library's business: the name rules of the
  Prometheus data model, which the library checks when a descriptor is built. A metric name is a non-empty word of letters,
  digits, underscores and colons that does not start with a digit; a label name is a non-empty
  word of letters, digits and underscores that starts with neither a digit nor two
  underscores; the label names of one descriptor are distinct.
\<close>

definition isLetter :: "char \<Rightarrow> bool" where
  "isLetter c = (let n = (of_char c :: nat) in (65 \<le> n \<and> n \<le> 90) \<or> (97 \<le> n \<and> n \<le> 122))"

definition isDigit :: "char \<Rightarrow> bool" where
  "isDigit c = (let n = (of_char c :: nat) in 48 \<le> n \<and> n \<le> 57)"

definition IsValidMetricName :: "string \<Rightarrow> bool" where
  "IsValidMetricName s =
     (case s of [] \<Rightarrow> False
      | c # cs \<Rightarrow> (isLetter c \<or> c = CHR ''_'' \<or> c = CHR '':'') \<and>
          list_all (\<lambda>x. isLetter x \<or> isDigit x \<or> x = CHR ''_'' \<or> x = CHR '':'') cs)"

definition checkLabelName :: "string \<Rightarrow> bool" where
  "checkLabelName s =
     (case s of [] \<Rightarrow> False
      | c # cs \<Rightarrow> (isLetter c \<or> c = CHR ''_'') \<and>
          list_all (\<lambda>x. isLetter x \<or> isDigit x \<or> x = CHR ''_'') cs \<and>
          \<not> prefix ''__'' s)"

definition validDesc :: "Desc \<Rightarrow> bool" where
  "validDesc d =
     (IsValidMetricName (fqName d) \<and> list_all checkLabelName (variableLabels d) \<and>
      distinct (variableLabels d))"

text \<open>
  The registry is given by the descriptors of the collectors registered with it, in the order
  of registration. A collector is registered through its descriptors.
\<close>

type_synonym Registry = "Desc list"

definition NewRegistry :: Registry where
  "NewRegistry = []"

definition registeredNames :: "Registry \<Rightarrow> string list" where
  "registeredNames r = map fqName r"

text \<open>
  Modelled from the spec: the library's \<^verbatim>\<open>Registry.Register\<close>, which the spec's section 6
  gives as \<^verbatim>\<open>register(instrument) -> success | duplicate-name-error\<close>. An invalid descriptor is
  refused first, then a name the registry already holds; a refused registration leaves the
  registry as it was.
\<close>

definition Register :: "Desc list \<Rightarrow> Registry \<Rightarrow> error + Registry" where
  "Register ds r =
     (if \<not> list_all validDesc ds then Inl ErrInvalidDesc
      else case filter (\<lambda>d. fqName d \<in> set (registeredNames r)) ds of
             [] \<Rightarrow> Inr (r @ ds)
           | d # _ \<Rightarrow> Inl (ErrAlreadyRegistered (fqName d)))"

text \<open>\<^verbatim>\<open>MustRegister\<close> registers the collectors in order and panics at the first refusal.\<close>

fun MustRegister :: "Desc list list \<Rightarrow> Registry \<Rightarrow> error + Registry" where
  "MustRegister [] r = Inr r"
| "MustRegister (c # cs) r =
     (case Register c r of Inl e \<Rightarrow> Inl (PanicMustRegister e) | Inr r' \<Rightarrow> MustRegister cs r')"

text \<open>
  The library's own collectors for the process and the Go runtime. Their metric names are the
  library's and all start with \<^verbatim>\<open>process_\<close> and \<^verbatim>\<open>go_\<close>; one descriptor of each stands
  for the whole collector.
\<close>

definition ProcessCollectorDescs :: "Desc list" where
  "ProcessCollectorDescs =
     [\<lparr>fqName = ''process_cpu_seconds_total'',
       helpText = ''Total user and system CPU time spent in seconds.'', variableLabels = []\<rparr>]"

definition GoCollectorDescs :: "Desc list" where
  "GoCollectorDescs =
     [\<lparr>fqName = ''go_goroutines'',
       helpText = ''Number of goroutines that currently exist.'', variableLabels = []\<rparr>]"

subsection \<open>Metric vectors\<close>

text \<open>
  Modelled from the spec: the library's counter, histogram and gauge vectors, as the spec's
  section 3 describes the three kinds of instrument. A vector keeps one child per combination
  of label values; a child comes into being at the first call that names its combination. A counter child counts its increments, a histogram
  child is given by the values observed so far (its count is their number), a gauge child
  holds a \<^verbatim>\<open>float64\<close>.
\<close>

record CounterVec =
  cDesc :: Desc
  cChildren :: "string list \<rightharpoonup> nat"

record HistogramVec =
  hDesc :: Desc
  hBuckets :: "float64 list option"
  hChildren :: "string list \<rightharpoonup> float64 list"

record GaugeVec =
  gDesc :: Desc
  gChildren :: "string list \<rightharpoonup> float64"

definition NewCounterVec :: "string \<Rightarrow> string \<Rightarrow> string \<Rightarrow> string \<Rightarrow> string list \<Rightarrow> CounterVec" where
  "NewCounterVec ns ss name hlp labelNames =
     \<lparr>cDesc = \<lparr>fqName = BuildFQName ns ss name, helpText = hlp, variableLabels = labelNames\<rparr>,
      cChildren = Map.empty\<rparr>"

definition NewHistogramVec ::
  "string \<Rightarrow> string \<Rightarrow> string \<Rightarrow> string \<Rightarrow> float64 list option \<Rightarrow> string list \<Rightarrow> HistogramVec" where
  "NewHistogramVec ns ss name hlp buckets labelNames =
     \<lparr>hDesc = \<lparr>fqName = BuildFQName ns ss name, helpText = hlp, variableLabels = labelNames\<rparr>,
      hBuckets = buckets, hChildren = Map.empty\<rparr>"

definition NewGaugeVec :: "string \<Rightarrow> string \<Rightarrow> string \<Rightarrow> string \<Rightarrow> string list \<Rightarrow> GaugeVec" where
  "NewGaugeVec ns ss name hlp labelNames =
     \<lparr>gDesc = \<lparr>fqName = BuildFQName ns ss name, helpText = hlp, variableLabels = labelNames\<rparr>,
      gChildren = Map.empty\<rparr>"

text \<open>
  The library's default boundaries, which a histogram takes when the bucket list it is given
  has no element.
\<close>

definition DefBuckets :: "float64 list" where
  "DefBuckets = [5/1000, 1/100, 25/1000, 5/100, 1/10, 25/100, 5/10, 1, 25/10, 5, 10]"

definition bucketsInUse :: "HistogramVec \<Rightarrow> float64 list" where
  "bucketsInUse hv = (case hBuckets hv of None \<Rightarrow> DefBuckets | Some [] \<Rightarrow> DefBuckets | Some bs \<Rightarrow> bs)"

text \<open>
  \<^verbatim>\<open>float64\<close> addition: the exact sum rounded to 53 significant bits, ties to the even
  significand. Non-finite values and overflow are left out; adding or subtracting one cannot
  overflow.
\<close>

definition pow2 :: "int \<Rightarrow> rat" where
  "pow2 e = (if 0 \<le> e then 2 ^ nat e else 1 / 2 ^ nat (- e))"

text \<open>The number of binary digits of a positive integer, and the binary exponent of a positive rational.\<close>

function bitlen :: "int \<Rightarrow> int" where
  "bitlen k = (if k \<le> 0 then 0 else 1 + bitlen (k div 2))"
  by pat_completeness auto
termination
  by (relation "measure nat") auto

declare bitlen.simps [simp del]

definition ilog2 :: "rat \<Rightarrow> int" where
  "ilog2 a = (if 1 \<le> a then bitlen \<lfloor>a\<rfloor> - 1 else - bitlen (\<lceil>1 / a\<rceil> - 1))"

definition roundHalfEven :: "rat \<Rightarrow> int" where
  "roundHalfEven q =
     (let f = \<lfloor>q\<rfloor>; r = q - of_int f in
      if r < 1/2 then f else if 1/2 < r then f + 1 else if even f then f else f + 1)"

definition round64 :: "rat \<Rightarrow> float64" where
  "round64 x =
     (if x = 0 then 0
      else let e = max (ilog2 \<bar>x\<bar> - 52) (- 1074) in of_int (roundHalfEven (x / pow2 e)) * pow2 e)"

definition f64add :: "float64 \<Rightarrow> float64 \<Rightarrow> float64" where
  "f64add x y = round64 (x + y)"

text \<open>
  Modelled from the spec: \<^verbatim>\<open>vec.WithLabelValues(lvs...)\<close> followed by the operation on the
  child. An operation on a registered vector with one value for each label succeeds; the
  library panics when the number of label values is not the number of label names (the
  spec's section 7).
\<close>

definition counterInc :: "string list \<Rightarrow> CounterVec \<Rightarrow> error + CounterVec" where
  "counterInc lvs cv =
     (if length lvs \<noteq> length (variableLabels (cDesc cv)) then Inl PanicLabelCardinality
      else Inr (cv\<lparr>cChildren := (cChildren cv)
                  (lvs \<mapsto> (case cChildren cv lvs of None \<Rightarrow> 1 | Some n \<Rightarrow> n + 1))\<rparr>))"

definition histObserve :: "string list \<Rightarrow> float64 \<Rightarrow> HistogramVec \<Rightarrow> error + HistogramVec" where
  "histObserve lvs v hv =
     (if length lvs \<noteq> length (variableLabels (hDesc hv)) then Inl PanicLabelCardinality
      else Inr (hv\<lparr>hChildren := (hChildren hv)
                  (lvs \<mapsto> (case hChildren hv lvs of None \<Rightarrow> [v] | Some vs \<Rightarrow> vs @ [v]))\<rparr>))"

definition gaugeSet :: "string list \<Rightarrow> float64 \<Rightarrow> GaugeVec \<Rightarrow> error + GaugeVec" where
  "gaugeSet lvs v gv =
     (if length lvs \<noteq> length (variableLabels (gDesc gv)) then Inl PanicLabelCardinality
      else Inr (gv\<lparr>gChildren := (gChildren gv)(lvs \<mapsto> v)\<rparr>))"

definition gaugeAdd :: "string list \<Rightarrow> float64 \<Rightarrow> GaugeVec \<Rightarrow> error + GaugeVec" where
  "gaugeAdd lvs v gv =
     (if length lvs \<noteq> length (variableLabels (gDesc gv)) then Inl PanicLabelCardinality
      else Inr (gv\<lparr>gChildren := (gChildren gv)
                  (lvs \<mapsto> f64add (case gChildren gv lvs of None \<Rightarrow> 0 | Some x \<Rightarrow> x) v)\<rparr>))"

definition counterValue :: "CounterVec \<Rightarrow> string list \<Rightarrow> nat" where
  "counterValue cv lvs = (case cChildren cv lvs of None \<Rightarrow> 0 | Some n \<Rightarrow> n)"

definition histCount :: "HistogramVec \<Rightarrow> string list \<Rightarrow> nat" where
  "histCount hv lvs = (case hChildren hv lvs of None \<Rightarrow> 0 | Some vs \<Rightarrow> length vs)"

definition gaugeValue :: "GaugeVec \<Rightarrow> string list \<Rightarrow> float64" where
  "gaugeValue gv lvs = (case gChildren gv lvs of None \<Rightarrow> 0 | Some x \<Rightarrow> x)"

section \<open>The metrics package\<close>

definition namespace :: string where
  "namespace = ''nexen''"

definition subsystem :: string where
  "subsystem = ''service''"

text \<open>
  The struct \<^verbatim>\<open>Metrics\<close>. The three fields that \<^verbatim>\<open>New\<close> fills before it applies the options,
  and that the options write, come first; the five instruments are nil until \<^verbatim>\<open>New\<close> has
  created them. The scrape handler is the library's rendering of the registry and is left out.
\<close>

record Settings =
  registry :: Registry
  histogramBuckets :: "float64 list option"
  serviceName :: string

record Metrics = Settings +
  httpRequests :: CounterVec
  httpDuration :: HistogramVec
  httpErrors :: CounterVec
  applicationEvent :: CounterVec
  serviceGauge :: GaugeVec

datatype Option =
    WithHistogramBuckets "float64 list option"
  | WithServiceName string
  | WithRegistry Registry

fun applyOption :: "Option \<Rightarrow> Settings \<Rightarrow> Settings" where
  "applyOption (WithHistogramBuckets buckets) m = m\<lparr>histogramBuckets := buckets\<rparr>"
| "applyOption (WithServiceName name) m = m\<lparr>serviceName := name\<rparr>"
| "applyOption (WithRegistry r) m = m\<lparr>registry := r\<rparr>"

definition applyOptions :: "Option list \<Rightarrow> Settings" where
  "applyOptions opts =
     foldl (\<lambda>m opt. applyOption opt m)
       \<lparr>registry = NewRegistry, histogramBuckets = Some DefaultHTTPBuckets,
        serviceName = ''default''\<rparr> opts"

definition New :: "Option list \<Rightarrow> error + Metrics" where
  "New opts =
     (let m = applyOptions opts;
          requests = NewCounterVec namespace subsystem ''http_requests_total''
                       ''Total number of HTTP requests received'' [''method'', ''path'', ''service''];
          duration = NewHistogramVec namespace subsystem ''http_request_duration_seconds''
                       ''Histogram of HTTP request durations'' (histogramBuckets m)
                       [''method'', ''path'', ''service''];
          errors = NewCounterVec namespace subsystem ''http_errors_total''
                       ''Total number of HTTP responses with error status codes''
                       [''method'', ''path'', ''code'', ''service''];
          events = NewCounterVec namespace subsystem ''application_events_total''
                       ''Count of application-specific events'' [''event'', ''service''];
          gauge = NewGaugeVec namespace subsystem ''gauge''
                       ''Service-specific gauge for arbitrary values'' [''name'', ''service'']
      in case MustRegister [ProcessCollectorDescs, GoCollectorDescs] (registry m) of
           Inl e \<Rightarrow> Inl e
         | Inr r0 \<Rightarrow>
       (case MustRegister [[cDesc requests]] r0 of Inl e \<Rightarrow> Inl e | Inr r1 \<Rightarrow>
       (case MustRegister [[hDesc duration]] r1 of Inl e \<Rightarrow> Inl e | Inr r2 \<Rightarrow>
       (case MustRegister [[cDesc errors]] r2 of Inl e \<Rightarrow> Inl e | Inr r3 \<Rightarrow>
       (case MustRegister [[cDesc events]] r3 of Inl e \<Rightarrow> Inl e | Inr r4 \<Rightarrow>
       (case MustRegister [[gDesc gauge]] r4 of Inl e \<Rightarrow> Inl e | Inr r5 \<Rightarrow>
          Inr \<lparr>registry = r5, histogramBuckets = histogramBuckets m, serviceName = serviceName m,
               httpRequests = requests, httpDuration = duration, httpErrors = errors,
               applicationEvent = events, serviceGauge = gauge\<rparr>))))))"

text \<open>
  The three registration methods. Each returns the new vector or the error, and the
  \<^verbatim>\<open>Metrics\<close> with its registry as the call leaves it. \<^verbatim>\<open>append(labels, "service")\<close> puts
  the service label last.
\<close>

definition RegisterCounter ::
  "string \<Rightarrow> string \<Rightarrow> string list \<Rightarrow> Metrics \<Rightarrow> (error + CounterVec) \<times> Metrics" where
  "RegisterCounter name hlp labels m =
     (let allLabels = labels @ [''service''];
          counter = NewCounterVec namespace subsystem name hlp allLabels
      in case Register [cDesc counter] (registry m) of
           Inl err \<Rightarrow> (Inl (ErrFailedToRegister ''counter'' name err), m)
         | Inr r \<Rightarrow> (Inr counter, m\<lparr>registry := r\<rparr>))"

definition RegisterHistogram ::
  "string \<Rightarrow> string \<Rightarrow> float64 list option \<Rightarrow> string list \<Rightarrow> Metrics
     \<Rightarrow> (error + HistogramVec) \<times> Metrics" where
  "RegisterHistogram name hlp buckets labels m =
     (let buckets' = (if buckets = None then histogramBuckets m else buckets);
          allLabels = labels @ [''service''];
          histogram = NewHistogramVec namespace subsystem name hlp buckets' allLabels
      in case Register [hDesc histogram] (registry m) of
           Inl err \<Rightarrow> (Inl (ErrFailedToRegister ''histogram'' name err), m)
         | Inr r \<Rightarrow> (Inr histogram, m\<lparr>registry := r\<rparr>))"

definition RegisterGauge ::
  "string \<Rightarrow> string \<Rightarrow> string list \<Rightarrow> Metrics \<Rightarrow> (error + GaugeVec) \<times> Metrics" where
  "RegisterGauge name hlp labels m =
     (let allLabels = labels @ [''service''];
          gauge = NewGaugeVec namespace subsystem name hlp allLabels
      in case Register [gDesc gauge] (registry m) of
           Inl err \<Rightarrow> (Inl (ErrFailedToRegister ''gauge'' name err), m)
         | Inr r \<Rightarrow> (Inr gauge, m\<lparr>registry := r\<rparr>))"


definition SetGauge :: "string \<Rightarrow> float64 \<Rightarrow> Metrics \<Rightarrow> error + Metrics" where
  "SetGauge name v m =
     (case gaugeSet [name, serviceName m] v (serviceGauge m) of
        Inl e \<Rightarrow> Inl e
      | Inr g \<Rightarrow> Inr (m\<lparr>serviceGauge := g\<rparr>))"

definition IncrementGauge :: "string \<Rightarrow> Metrics \<Rightarrow> error + Metrics" where
  "IncrementGauge name m =
     (case gaugeAdd [name, serviceName m] 1 (serviceGauge m) of
        Inl e \<Rightarrow> Inl e
      | Inr g \<Rightarrow> Inr (m\<lparr>serviceGauge := g\<rparr>))"

definition DecrementGauge :: "string \<Rightarrow> Metrics \<Rightarrow> error + Metrics" where
  "DecrementGauge name m =
     (case gaugeAdd [name, serviceName m] (- 1) (serviceGauge m) of
        Inl e \<Rightarrow> Inl e
      | Inr g \<Rightarrow> Inr (m\<lparr>serviceGauge := g\<rparr>))"

section \<open>The response writer that captures the status code\<close>

text \<open>
  The writer the server hands to a handler is given by the calls it has received, in order,
  and by the optional interfaces its type implements besides the three methods of
  \<^verbatim>\<open>http.ResponseWriter\<close>. A call of \<^verbatim>\<open>Header().Set\<close> is one call on the writer.
\<close>

datatype Upgrade = Flusher | Hijacker | Pusher

datatype WriterCall =
    SetHeader string string
  | CallWriteHeader int
  | CallWrite string

record Writer =
  implements :: "Upgrade list"
  received :: "WriterCall list"

definition deliver :: "WriterCall \<Rightarrow> Writer \<Rightarrow> Writer" where
  "deliver c w = w\<lparr>received := received w @ [c]\<rparr>"

text \<open>
  The struct \<^verbatim>\<open>responseWriter\<close> embeds the interface \<^verbatim>\<open>http.ResponseWriter\<close> and adds the
  captured status code, zero at first. It defines \<^verbatim>\<open>WriteHeader\<close> and \<^verbatim>\<open>Write\<close>;
  \<^verbatim>\<open>Header\<close> is promoted from the embedded writer. These three are all its methods, so it
  implements none of the optional interfaces, whatever the embedded writer implements.
\<close>

record responseWriter =
  ResponseWriter :: Writer
  statusCode :: int

definition StatusOK :: int where
  "StatusOK = 200"

definition WriteHeader :: "int \<Rightarrow> responseWriter \<Rightarrow> responseWriter" where
  "WriteHeader code rw =
     (let rw1 = rw\<lparr>statusCode := code\<rparr>
      in rw1\<lparr>ResponseWriter := deliver (CallWriteHeader code) (ResponseWriter rw1)\<rparr>)"

definition Write :: "string \<Rightarrow> responseWriter \<Rightarrow> responseWriter" where
  "Write b rw =
     (let rw1 = (if statusCode rw = 0 then rw\<lparr>statusCode := StatusOK\<rparr> else rw)
      in rw1\<lparr>ResponseWriter := deliver (CallWrite b) (ResponseWriter rw1)\<rparr>)"

definition responseWriterImplements :: "Upgrade list" where
  "responseWriterImplements = []"

fun serveCall :: "WriterCall \<Rightarrow> responseWriter \<Rightarrow> responseWriter" where
  "serveCall (SetHeader k v) rw = rw\<lparr>ResponseWriter := deliver (SetHeader k v) (ResponseWriter rw)\<rparr>"
| "serveCall (CallWriteHeader code) rw = WriteHeader code rw"
| "serveCall (CallWrite b) rw = Write b rw"

definition serveCalls :: "WriterCall list \<Rightarrow> responseWriter \<Rightarrow> responseWriter" where
  "serveCalls cs rw = foldl (\<lambda>rw c. serveCall c rw) rw cs"

section \<open>The instrumentation middleware\<close>

text \<open>The table of \<^verbatim>\<open>http.StatusText\<close> in Go's standard library; a code it does not list has the empty text.\<close>

definition statusTexts :: "(int \<times> string) list" where
  "statusTexts =
     [(100, ''Continue''), (101, ''Switching Protocols''), (102, ''Processing''),
      (103, ''Early Hints''),
      (200, ''OK''), (201, ''Created''), (202, ''Accepted''),
      (203, ''Non-Authoritative Information''), (204, ''No Content''), (205, ''Reset Content''),
      (206, ''Partial Content''), (207, ''Multi-Status''), (208, ''Already Reported''),
      (226, ''IM Used''),
      (300, ''Multiple Choices''), (301, ''Moved Permanently''), (302, ''Found''),
      (303, ''See Other''), (304, ''Not Modified''), (305, ''Use Proxy''),
      (307, ''Temporary Redirect''), (308, ''Permanent Redirect''),
      (400, ''Bad Request''), (401, ''Unauthorized''), (402, ''Payment Required''),
      (403, ''Forbidden''), (404, ''Not Found''), (405, ''Method Not Allowed''),
      (406, ''Not Acceptable''), (407, ''Proxy Authentication Required''),
      (408, ''Request Timeout''), (409, ''Conflict''), (410, ''Gone''),
      (411, ''Length Required''), (412, ''Precondition Failed''),
      (413, ''Request Entity Too Large''), (414, ''Request URI Too Long''),
      (415, ''Unsupported Media Type''), (416, ''Requested Range Not Satisfiable''),
      (417, ''Expectation Failed''), (418, ''I'' @ [CHR 0x27] @ ''m a teapot''),
      (421, ''Misdirected Request''), (422, ''Unprocessable Entity''), (423, ''Locked''),
      (424, ''Failed Dependency''), (425, ''Too Early''), (426, ''Upgrade Required''),
      (428, ''Precondition Required''), (429, ''Too Many Requests''),
      (431, ''Request Header Fields Too Large''), (451, ''Unavailable For Legal Reasons''),
      (500, ''Internal Server Error''), (501, ''Not Implemented''), (502, ''Bad Gateway''),
      (503, ''Service Unavailable''), (504, ''Gateway Timeout''),
      (505, ''HTTP Version Not Supported''), (506, ''Variant Also Negotiates''),
      (507, ''Insufficient Storage''), (508, ''Loop Detected''), (510, ''Not Extended''),
      (511, ''Network Authentication Required'')]"

definition StatusText :: "int \<Rightarrow> string" where
  "StatusText code = (case map_of statusTexts code of None \<Rightarrow> [] | Some t \<Rightarrow> t)"

record Request =
  httpMethod :: string
  urlPath :: string

text \<open>
  A handler is opaque to the package. It is given the optional interfaces of the writer it is
  handed, the request, and the \<^verbatim>\<open>Metrics\<close> as they are when it is called, which it may read;
  it answers with the calls it makes on its writer, in order, and with its own state
  afterwards. A handler that panics, or that itself changes the \<^verbatim>\<open>Metrics\<close>, is not covered.
\<close>

type_synonym 'h Handler = "Upgrade list \<Rightarrow> Request \<Rightarrow> Metrics \<Rightarrow> 'h \<Rightarrow> WriterCall list \<times> 'h"

text \<open>\<^verbatim>\<open>next.ServeHTTP(w, r)\<close> on a plain writer: every call of the handler reaches \<open>w\<close>.\<close>

definition ServeHTTP :: "'h Handler \<Rightarrow> Writer \<Rightarrow> Request \<Rightarrow> Metrics \<Rightarrow> 'h \<Rightarrow> Writer \<times> 'h" where
  "ServeHTTP next w r m h =
     (case next (implements w) r m h of (cs, h') \<Rightarrow> (foldl (\<lambda>w c. deliver c w) w cs, h'))"

text \<open>
  The handler that \<^verbatim>\<open>Instrument(next)\<close> returns, run on one request. \<open>elapsed\<close> is the
  value of \<^verbatim>\<open>time.Since(start).Seconds()\<close>, read from the clock.
\<close>

definition Instrument ::
  "'h Handler \<Rightarrow> Writer \<Rightarrow> Request \<Rightarrow> float64 \<Rightarrow> Metrics \<Rightarrow> 'h \<Rightarrow> error + (Writer \<times> Metrics \<times> 'h)" where
  "Instrument next w r elapsed m h =
     (let path = urlPath r; meth = httpMethod r
      in case counterInc [meth, path, serviceName m] (httpRequests m) of
           Inl e \<Rightarrow> Inl e
         | Inr requests \<Rightarrow>
             (let m1 = m\<lparr>httpRequests := requests\<rparr>;
                  rw = \<lparr>ResponseWriter = w, statusCode = 0\<rparr>
              in case next responseWriterImplements r m1 h of (cs, h') \<Rightarrow>
                (let rw' = serveCalls cs rw
                 in case histObserve [meth, path, serviceName m1] elapsed (httpDuration m1) of
                      Inl e \<Rightarrow> Inl e
                    | Inr duration \<Rightarrow>
                        (let m2 = m1\<lparr>httpDuration := duration\<rparr>; code = statusCode rw'
                         in if code \<ge> 400
                            then (case counterInc [meth, path, StatusText code, serviceName m2]
                                         (httpErrors m2) of
                                    Inl e \<Rightarrow> Inl e
                                  | Inr errors \<Rightarrow>
                                      Inr (ResponseWriter rw', m2\<lparr>httpErrors := errors\<rparr>, h'))
                            else Inr (ResponseWriter rw', m2, h')))))"

text \<open>The instrumented handler on a sequence of requests, each with its own writer and duration.\<close>

fun InstrumentAll ::
  "'h Handler \<Rightarrow> (Writer \<times> Request \<times> float64) list \<Rightarrow> Metrics \<Rightarrow> 'h \<Rightarrow> error + (Metrics \<times> 'h)" where
  "InstrumentAll next [] m h = Inr (m, h)"
| "InstrumentAll next ((w, r, elapsed) # rest) m h =
     (case Instrument next w r elapsed m h of
        Inl e \<Rightarrow> Inl e
      | Inr (w', m', h') \<Rightarrow> InstrumentAll next rest m' h')"

section \<open>Notions used in the statements\<close>

text \<open>
  The three registration methods under one name, with the vector they return left out; the
  descriptor that each of them builds for a custom name; and the label names of the five
  standard instruments, which \<^verbatim>\<open>New\<close> fixes.
\<close>

datatype Kind = CounterKind | HistogramKind "float64 list option" | GaugeKind

fun kindName :: "Kind \<Rightarrow> string" where
  "kindName CounterKind = ''counter''"
| "kindName (HistogramKind _) = ''histogram''"
| "kindName GaugeKind = ''gauge''"

fun registerAs :: "Kind \<Rightarrow> string \<Rightarrow> string \<Rightarrow> string list \<Rightarrow> Metrics \<Rightarrow> error option \<times> Metrics" where
  "registerAs CounterKind name hlp labels m =
     (case RegisterCounter name hlp labels m of (Inl e, m') \<Rightarrow> (Some e, m') | (Inr _, m') \<Rightarrow> (None, m'))"
| "registerAs (HistogramKind buckets) name hlp labels m =
     (case RegisterHistogram name hlp buckets labels m of (Inl e, m') \<Rightarrow> (Some e, m') | (Inr _, m') \<Rightarrow> (None, m'))"
| "registerAs GaugeKind name hlp labels m =
     (case RegisterGauge name hlp labels m of (Inl e, m') \<Rightarrow> (Some e, m') | (Inr _, m') \<Rightarrow> (None, m'))"

definition customDesc :: "string \<Rightarrow> string \<Rightarrow> string list \<Rightarrow> Desc" where
  "customDesc name hlp labels =
     \<lparr>fqName = BuildFQName namespace subsystem name, helpText = hlp,
      variableLabels = labels @ [''service'']\<rparr>"

definition standardInstruments :: "Metrics \<Rightarrow> bool" where
  "standardInstruments m =
     (variableLabels (cDesc (httpRequests m)) = [''method'', ''path'', ''service''] \<and>
      variableLabels (hDesc (httpDuration m)) = [''method'', ''path'', ''service''] \<and>
      variableLabels (cDesc (httpErrors m)) = [''method'', ''path'', ''code'', ''service''] \<and>
      variableLabels (cDesc (applicationEvent m)) = [''event'', ''service''] \<and>
      variableLabels (gDesc (serviceGauge m)) = [''name'', ''service''])"

text \<open>The names that \<^verbatim>\<open>New\<close> registers.\<close>

definition standardNames :: "string list" where
  "standardNames =
     [''process_cpu_seconds_total'', ''go_goroutines'', ''nexen_service_http_requests_total'',
      ''nexen_service_http_request_duration_seconds'', ''nexen_service_http_errors_total'',
      ''nexen_service_application_events_total'', ''nexen_service_gauge'']"

text \<open>
  A counter vector after one increment of a child, a histogram vector after one observation,
  the status code that the capturing writer holds after a sequence of calls, and the error
  counter after a request that ended with a given status code.
\<close>

definition incremented :: "string list \<Rightarrow> CounterVec \<Rightarrow> CounterVec" where
  "incremented lvs cv = cv\<lparr>cChildren := (cChildren cv)(lvs \<mapsto> counterValue cv lvs + 1)\<rparr>"

definition observed :: "string list \<Rightarrow> float64 \<Rightarrow> HistogramVec \<Rightarrow> HistogramVec" where
  "observed lvs v hv =
     hv\<lparr>hChildren := (hChildren hv)
          (lvs \<mapsto> (case hChildren hv lvs of None \<Rightarrow> [] | Some vs \<Rightarrow> vs) @ [v])\<rparr>"

definition capturedStatus :: "WriterCall list \<Rightarrow> int" where
  "capturedStatus cs =
     statusCode (serveCalls cs \<lparr>ResponseWriter = \<lparr>implements = [], received = []\<rparr>, statusCode = 0\<rparr>)"

definition errorsAfter :: "Request \<Rightarrow> int \<Rightarrow> Metrics \<Rightarrow> CounterVec" where
  "errorsAfter r code m =
     (if code \<ge> 400
      then incremented [httpMethod r, urlPath r, StatusText code, serviceName m] (httpErrors m)
      else httpErrors m)"

text \<open>
  The label values of a request's combination, and the \<^verbatim>\<open>Metrics\<close> once the request counter
  has been incremented for it.
\<close>

definition requestKey :: "Request \<Rightarrow> Metrics \<Rightarrow> string list" where
  "requestKey r m = [httpMethod r, urlPath r, serviceName m]"

definition countedRequest :: "Request \<Rightarrow> Metrics \<Rightarrow> Metrics" where
  "countedRequest r m = m\<lparr>httpRequests := incremented (requestKey r m) (httpRequests m)\<rparr>"

text \<open>The handler of the package's own test \<^verbatim>\<open>TestInstrument\<close>.\<close>

definition testHandler :: "unit Handler" where
  "testHandler caps r m h =
     (if urlPath r = ''/error'' then ([CallWriteHeader 500], h) else ([CallWriteHeader 200], h))"

text \<open>
  A handler that streams when its writer can flush and answers 500 when it cannot, as
  handlers for server-sent events do.
\<close>

definition streamHandler :: "unit Handler" where
  "streamHandler caps r m h =
     (if Flusher \<in> set caps
      then ([SetHeader ''Content-Type'' ''text/event-stream'', CallWriteHeader 200,
             CallWrite ''data: tick''], h)
      else ([CallWriteHeader 500, CallWrite ''Streaming unsupported!''], h))"

text \<open>
  The bucket profile that a list of options configures, in the spec's words: the HTTP profile
  unless an option overrides it, the last such option deciding.
\<close>

fun lastBuckets :: "Option list \<Rightarrow> float64 list option \<Rightarrow> float64 list option" where
  "lastBuckets [] b = b"
| "lastBuckets (WithHistogramBuckets b' # opts) b = lastBuckets opts b'"
| "lastBuckets (_ # opts) b = lastBuckets opts b"

definition configuredBuckets :: "Option list \<Rightarrow> float64 list option" where
  "configuredBuckets opts = lastBuckets opts (Some DefaultHTTPBuckets)"

section \<open>Registration: auxiliary facts\<close>

lemma Register_single:
  "Register [d] r =
     (if \<not> validDesc d then Inl ErrInvalidDesc
      else if fqName d \<in> set (registeredNames r) then Inl (ErrAlreadyRegistered (fqName d))
      else Inr (r @ [d]))"
  by (simp add: Register_def)

lemma RegisterCounter_eq:
  "RegisterCounter name hlp labels m =
     (case Register [customDesc name hlp labels] (registry m) of
        Inl err \<Rightarrow> (Inl (ErrFailedToRegister ''counter'' name err), m)
      | Inr r \<Rightarrow> (Inr (NewCounterVec namespace subsystem name hlp (labels @ [''service''])),
                  m\<lparr>registry := r\<rparr>))"
  by (simp add: RegisterCounter_def customDesc_def NewCounterVec_def Let_def split: sum.splits)

lemma RegisterHistogram_eq:
  "RegisterHistogram name hlp buckets labels m =
     (case Register [customDesc name hlp labels] (registry m) of
        Inl err \<Rightarrow> (Inl (ErrFailedToRegister ''histogram'' name err), m)
      | Inr r \<Rightarrow> (Inr (NewHistogramVec namespace subsystem name hlp
                         (if buckets = None then histogramBuckets m else buckets)
                         (labels @ [''service''])),
                  m\<lparr>registry := r\<rparr>))"
  by (simp add: RegisterHistogram_def customDesc_def NewHistogramVec_def Let_def split: sum.splits)

lemma RegisterGauge_eq:
  "RegisterGauge name hlp labels m =
     (case Register [customDesc name hlp labels] (registry m) of
        Inl err \<Rightarrow> (Inl (ErrFailedToRegister ''gauge'' name err), m)
      | Inr r \<Rightarrow> (Inr (NewGaugeVec namespace subsystem name hlp (labels @ [''service''])),
                  m\<lparr>registry := r\<rparr>))"
  by (simp add: RegisterGauge_def customDesc_def NewGaugeVec_def Let_def split: sum.splits)

lemma registerAs_eq:
  "registerAs k name hlp labels m =
     (case Register [customDesc name hlp labels] (registry m) of
        Inl err \<Rightarrow> (Some (ErrFailedToRegister (kindName k) name err), m)
      | Inr r \<Rightarrow> (None, m\<lparr>registry := r\<rparr>))"
  by (cases k)
     (simp_all add: RegisterCounter_eq RegisterHistogram_eq RegisterGauge_eq split: sum.splits)

lemma Register_Inr: "Register ds r = Inr r' \<Longrightarrow> r' = r @ ds"
  by (auto simp: Register_def split: if_splits list.splits)

lemma MustRegister_Inr: "MustRegister cs r = Inr r' \<Longrightarrow> r' = r @ concat cs"
proof (induction cs arbitrary: r)
  case Nil
  then show ?case by simp
next
  case (Cons c cs)
  from Cons.prems obtain r1 where r1: "Register c r = Inr r1" and rest: "MustRegister cs r1 = Inr r'"
    by (auto split: sum.splits)
  from Register_Inr[OF r1] Cons.IH[OF rest] show ?case by simp
qed

lemma New_Inr_record:
  assumes "New opts = Inr m"
  shows "m = \<lparr>registry = registry (applyOptions opts) @ ProcessCollectorDescs @ GoCollectorDescs @
               [cDesc (NewCounterVec namespace subsystem ''http_requests_total''
                  ''Total number of HTTP requests received'' [''method'', ''path'', ''service'']),
                hDesc (NewHistogramVec namespace subsystem ''http_request_duration_seconds''
                  ''Histogram of HTTP request durations'' (histogramBuckets (applyOptions opts))
                  [''method'', ''path'', ''service'']),
                cDesc (NewCounterVec namespace subsystem ''http_errors_total''
                  ''Total number of HTTP responses with error status codes''
                  [''method'', ''path'', ''code'', ''service'']),
                cDesc (NewCounterVec namespace subsystem ''application_events_total''
                  ''Count of application-specific events'' [''event'', ''service'']),
                gDesc (NewGaugeVec namespace subsystem ''gauge''
                  ''Service-specific gauge for arbitrary values'' [''name'', ''service''])],
             histogramBuckets = histogramBuckets (applyOptions opts),
             serviceName = serviceName (applyOptions opts),
             httpRequests = NewCounterVec namespace subsystem ''http_requests_total''
               ''Total number of HTTP requests received'' [''method'', ''path'', ''service''],
             httpDuration = NewHistogramVec namespace subsystem ''http_request_duration_seconds''
               ''Histogram of HTTP request durations'' (histogramBuckets (applyOptions opts))
               [''method'', ''path'', ''service''],
             httpErrors = NewCounterVec namespace subsystem ''http_errors_total''
               ''Total number of HTTP responses with error status codes''
               [''method'', ''path'', ''code'', ''service''],
             applicationEvent = NewCounterVec namespace subsystem ''application_events_total''
               ''Count of application-specific events'' [''event'', ''service''],
             serviceGauge = NewGaugeVec namespace subsystem ''gauge''
               ''Service-specific gauge for arbitrary values'' [''name'', ''service'']\<rparr>"
  using assms unfolding New_def Let_def
  by (auto split: sum.splits dest!: MustRegister_Inr simp del: MustRegister.simps)

lemma New_Inr:
  assumes "New opts = Inr m"
  shows "serviceName m = serviceName (applyOptions opts)"
    and "histogramBuckets m = histogramBuckets (applyOptions opts)"
    and "httpRequests m = NewCounterVec namespace subsystem ''http_requests_total''
           ''Total number of HTTP requests received'' [''method'', ''path'', ''service'']"
    and "httpDuration m = NewHistogramVec namespace subsystem ''http_request_duration_seconds''
           ''Histogram of HTTP request durations'' (histogramBuckets (applyOptions opts))
           [''method'', ''path'', ''service'']"
    and "httpErrors m = NewCounterVec namespace subsystem ''http_errors_total''
           ''Total number of HTTP responses with error status codes''
           [''method'', ''path'', ''code'', ''service'']"
    and "applicationEvent m = NewCounterVec namespace subsystem ''application_events_total''
           ''Count of application-specific events'' [''event'', ''service'']"
    and "serviceGauge m = NewGaugeVec namespace subsystem ''gauge''
           ''Service-specific gauge for arbitrary values'' [''name'', ''service'']"
  by (subst New_Inr_record[OF assms], simp)+

lemma New_standard: "New opts = Inr m \<Longrightarrow> standardInstruments m"
  by (simp add: standardInstruments_def New_Inr NewCounterVec_def NewHistogramVec_def
      NewGaugeVec_def)

lemma prefix_fq: "name \<noteq> [] \<Longrightarrow> BuildFQName namespace subsystem name = ''nexen_service_'' @ name"
  by (simp add: BuildFQName_def namespace_def subsystem_def)

lemma valid_custom_name: "validDesc (customDesc name hlp labels) \<Longrightarrow> name \<noteq> []"
  by (auto simp: validDesc_def customDesc_def BuildFQName_def IsValidMetricName_def)

lemma RegisterCounter_Inr:
  assumes "RegisterCounter name hlp labels m = (Inr cv, m')"
  shows "cv = NewCounterVec namespace subsystem name hlp (labels @ [''service''])"
    and "validDesc (customDesc name hlp labels)"
    and "m' = m\<lparr>registry := registry m @ [customDesc name hlp labels]\<rparr>"
  using assms
  by (auto simp: RegisterCounter_eq Register_single split: sum.splits if_splits)

lemma RegisterHistogram_Inr:
  assumes "RegisterHistogram name hlp buckets labels m = (Inr hv, m')"
  shows "hv = NewHistogramVec namespace subsystem name hlp
                (if buckets = None then histogramBuckets m else buckets) (labels @ [''service''])"
    and "validDesc (customDesc name hlp labels)"
    and "m' = m\<lparr>registry := registry m @ [customDesc name hlp labels]\<rparr>"
  using assms
  by (auto simp: RegisterHistogram_eq Register_single split: sum.splits if_splits)

lemma RegisterGauge_Inr:
  assumes "RegisterGauge name hlp labels m = (Inr gv, m')"
  shows "gv = NewGaugeVec namespace subsystem name hlp (labels @ [''service''])"
    and "validDesc (customDesc name hlp labels)"
    and "m' = m\<lparr>registry := registry m @ [customDesc name hlp labels]\<rparr>"
  using assms
  by (auto simp: RegisterGauge_eq Register_single split: sum.splits if_splits)

lemmas name_rules = validDesc_def IsValidMetricName_def checkLabelName_def isLetter_def isDigit_def
  BuildFQName_def namespace_def subsystem_def

lemma New_returns:
  assumes "set (registeredNames (registry (applyOptions opts))) \<inter> set standardNames = {}"
  shows "\<exists>m. New opts = Inr m"
proof -
  let ?r = "registry (applyOptions opts)"
  have d: "\<And>n. n \<in> set standardNames \<Longrightarrow> n \<notin> fqName ` set ?r"
    using assms by (auto simp: registeredNames_def)
  have r0: "MustRegister [ProcessCollectorDescs, GoCollectorDescs] ?r
              = Inr (?r @ ProcessCollectorDescs @ GoCollectorDescs)"
    using d by (simp add: Register_def registeredNames_def ProcessCollectorDescs_def
        GoCollectorDescs_def name_rules standardNames_def)
  show ?thesis
    unfolding New_def Let_def r0
    using d
    by (simp add: Register_def registeredNames_def ProcessCollectorDescs_def
        GoCollectorDescs_def name_rules standardNames_def NewCounterVec_def NewHistogramVec_def
        NewGaugeVec_def)
qed

lemma applyOptions_plain: "registry (applyOptions [WithServiceName n]) = []"
  "registry (applyOptions []) = []"
  "registry (applyOptions [WithHistogramBuckets b]) = []"
  by (simp_all add: applyOptions_def NewRegistry_def)


lemma New_projr:
  "set (registeredNames (registry (applyOptions opts))) \<inter> set standardNames = {}
     \<Longrightarrow> New opts = Inr (projr (New opts))"
  using New_returns[of opts] by auto

lemma New_names:
  "New opts = Inr m \<Longrightarrow>
     registeredNames (registry m) = registeredNames (registry (applyOptions opts)) @ standardNames"
  by (subst New_Inr_record, assumption)
     (simp add: registeredNames_def ProcessCollectorDescs_def GoCollectorDescs_def
        standardNames_def NewCounterVec_def NewHistogramVec_def NewGaugeVec_def BuildFQName_def
        namespace_def subsystem_def)

lemma RegisterCounter_fresh:
  assumes "validDesc (customDesc name hlp labels)"
      and "fqName (customDesc name hlp labels) \<notin> set (registeredNames (registry m))"
  shows "RegisterCounter name hlp labels m =
           (Inr (NewCounterVec namespace subsystem name hlp (labels @ [''service''])),
            m\<lparr>registry := registry m @ [customDesc name hlp labels]\<rparr>)"
  using assms by (simp add: RegisterCounter_eq Register_single)

lemma RegisterHistogram_fresh:
  assumes "validDesc (customDesc name hlp labels)"
      and "fqName (customDesc name hlp labels) \<notin> set (registeredNames (registry m))"
  shows "RegisterHistogram name hlp buckets labels m =
           (Inr (NewHistogramVec namespace subsystem name hlp
                   (if buckets = None then histogramBuckets m else buckets)
                   (labels @ [''service''])),
            m\<lparr>registry := registry m @ [customDesc name hlp labels]\<rparr>)"
  using assms by (simp add: RegisterHistogram_eq Register_single)

lemma RegisterGauge_fresh:
  assumes "validDesc (customDesc name hlp labels)"
      and "fqName (customDesc name hlp labels) \<notin> set (registeredNames (registry m))"
  shows "RegisterGauge name hlp labels m =
           (Inr (NewGaugeVec namespace subsystem name hlp (labels @ [''service''])),
            m\<lparr>registry := registry m @ [customDesc name hlp labels]\<rparr>)"
  using assms by (simp add: RegisterGauge_eq Register_single)

lemma New_plain:
  "New [] = Inr (projr (New []))"
  "New [WithServiceName n] = Inr (projr (New [WithServiceName n]))"
  "New [WithHistogramBuckets b] = Inr (projr (New [WithHistogramBuckets b]))"
  by (rule New_projr, simp add: applyOptions_plain registeredNames_def)+

lemma New_plain_names:
  "registeredNames (registry (projr (New []))) = standardNames"
  "registeredNames (registry (projr (New [WithServiceName n]))) = standardNames"
  "registeredNames (registry (projr (New [WithHistogramBuckets b]))) = standardNames"
  using New_names[OF New_plain(1)] New_names[OF New_plain(2), of n] New_names[OF New_plain(3), of b]
  by (simp_all add: applyOptions_plain registeredNames_def)

lemma foldl_buckets:
  "histogramBuckets (foldl (\<lambda>m opt. applyOption opt m) s opts) = lastBuckets opts (histogramBuckets s)"
proof (induction opts arbitrary: s)
  case Nil
  show ?case by simp
next
  case (Cons opt opts)
  show ?case by (cases opt) (simp_all add: Cons.IH)
qed

lemma applyOptions_buckets: "histogramBuckets (applyOptions opts) = configuredBuckets opts"
  by (simp add: applyOptions_def configuredBuckets_def foldl_buckets)

lemma profiles_differ:
  "DefaultLLMLatencyBuckets \<noteq> DefaultHTTPBuckets" "DefBuckets \<noteq> DefaultLLMLatencyBuckets"
  "DefaultLLMLatencyBuckets \<noteq> []" "DefBuckets = DefaultHTTPBuckets"
  by (simp_all add: DefaultLLMLatencyBuckets_def DefaultHTTPBuckets_def DefBuckets_def)

section \<open>Observations and the capturing writer: auxiliary facts\<close>

lemma counterInc_eq:
  "counterInc lvs cv =
     (if length lvs \<noteq> length (variableLabels (cDesc cv)) then Inl PanicLabelCardinality
      else Inr (incremented lvs cv))"
  by (simp add: counterInc_def incremented_def counterValue_def split: option.splits)

lemma histObserve_eq:
  "histObserve lvs v hv =
     (if length lvs \<noteq> length (variableLabels (hDesc hv)) then Inl PanicLabelCardinality
      else Inr (observed lvs v hv))"
  by (simp add: histObserve_def observed_def split: option.splits)

lemma counterValue_incremented:
  "counterValue (incremented k cv) k' = (if k' = k then counterValue cv k + 1 else counterValue cv k')"
  by (simp add: incremented_def counterValue_def)

lemma histCount_observed:
  "histCount (observed k v hv) k' = (if k' = k then histCount hv k + 1 else histCount hv k')"
  by (simp add: observed_def histCount_def split: option.splits)

lemma desc_incremented [simp]: "cDesc (incremented k cv) = cDesc cv"
  by (simp add: incremented_def)

lemma desc_observed [simp]: "hDesc (observed k v hv) = hDesc hv"
  by (simp add: observed_def)

lemma serveCall_writer:
  "ResponseWriter (serveCall c rw) = deliver c (ResponseWriter rw)"
  by (cases c) (simp_all add: WriteHeader_def Write_def Let_def)

lemma serveCalls_writer:
  "ResponseWriter (serveCalls cs rw)
     = (ResponseWriter rw)\<lparr>received := received (ResponseWriter rw) @ cs\<rparr>"
proof (induction cs arbitrary: rw)
  case Nil
  show ?case by (simp add: serveCalls_def)
next
  case (Cons c cs)
  have "serveCalls (c # cs) rw = serveCalls cs (serveCall c rw)"
    by (simp add: serveCalls_def)
  then show ?case
    by (simp add: Cons.IH serveCall_writer deliver_def)
qed

lemma serveCall_status:
  "statusCode rw = statusCode rw' \<Longrightarrow> statusCode (serveCall c rw) = statusCode (serveCall c rw')"
  by (cases c) (simp_all add: WriteHeader_def Write_def Let_def)

lemma serveCalls_status:
  "statusCode rw = statusCode rw' \<Longrightarrow> statusCode (serveCalls cs rw) = statusCode (serveCalls cs rw')"
proof (induction cs arbitrary: rw rw')
  case Nil
  then show ?case by (simp add: serveCalls_def)
next
  case (Cons c cs)
  have "statusCode (serveCalls cs (serveCall c rw)) = statusCode (serveCalls cs (serveCall c rw'))"
    by (rule Cons.IH) (rule serveCall_status[OF Cons.prems])
  then show ?case by (simp add: serveCalls_def)
qed

lemma captured_any_writer:
  "statusCode (serveCalls cs \<lparr>ResponseWriter = w, statusCode = 0\<rparr>) = capturedStatus cs"
  unfolding capturedStatus_def by (rule serveCalls_status) simp

lemma deliver_all: "foldl (\<lambda>w c. deliver c w) w cs = w\<lparr>received := received w @ cs\<rparr>"
  by (induction cs arbitrary: w) (simp_all add: deliver_def)

lemma Instrument_eq:
  assumes "standardInstruments m"
  shows "Instrument next w r elapsed m h =
     (let key = [httpMethod r, urlPath r, serviceName m];
          m1 = m\<lparr>httpRequests := incremented key (httpRequests m)\<rparr>;
          cs = fst (next responseWriterImplements r m1 h)
      in Inr (w\<lparr>received := received w @ cs\<rparr>,
              m1\<lparr>httpDuration := observed key elapsed (httpDuration m),
                 httpErrors := errorsAfter r (capturedStatus cs) m\<rparr>,
              snd (next responseWriterImplements r m1 h)))"
  using assms
  by (simp add: Instrument_def counterInc_eq histObserve_eq standardInstruments_def Let_def
      captured_any_writer serveCalls_writer errorsAfter_def split: prod.splits)

lemma serveCalls_snoc: "serveCalls (cs @ [c]) rw = serveCall c (serveCalls cs rw)"
  by (simp add: serveCalls_def)

lemma captured_Nil: "capturedStatus [] = 0"
  by (simp add: capturedStatus_def serveCalls_def)

lemma captured_WriteHeader: "capturedStatus (cs @ [CallWriteHeader code]) = code"
  by (simp add: capturedStatus_def serveCalls_snoc WriteHeader_def Let_def)

lemma captured_Write:
  "capturedStatus (cs @ [CallWrite b]) = (if capturedStatus cs = 0 then 200 else capturedStatus cs)"
  by (simp add: capturedStatus_def serveCalls_snoc Write_def Let_def StatusOK_def)

lemma captured_SetHeader: "capturedStatus (cs @ [SetHeader k v]) = capturedStatus cs"
  by (simp add: capturedStatus_def serveCalls_snoc)

lemma captured_headers_only:
  "\<forall>c\<in>set cs. \<exists>k v. c = SetHeader k v \<Longrightarrow> capturedStatus cs = 0"
proof (induction cs rule: rev_induct)
  case Nil
  show ?case by (rule captured_Nil)
next
  case (snoc c cs)
  then obtain k v where "c = SetHeader k v" by auto
  with snoc show ?case by (simp add: captured_SetHeader)
qed

lemma captured_no_WriteHeader:
  "\<forall>code. CallWriteHeader code \<notin> set cs \<Longrightarrow>
     capturedStatus cs = (if \<exists>b. CallWrite b \<in> set cs then 200 else 0)"
proof (induction cs rule: rev_induct)
  case Nil
  show ?case by (simp add: captured_Nil)
next
  case (snoc c cs)
  then have ih: "capturedStatus cs = (if \<exists>b. CallWrite b \<in> set cs then 200 else 0)" by simp
  show ?case
  proof (cases c)
    case (SetHeader k v)
    with ih show ?thesis by (simp add: captured_SetHeader)
  next
    case (CallWriteHeader code)
    with snoc.prems have False by auto
    then show ?thesis ..
  next
    case (CallWrite b)
    with ih show ?thesis by (auto simp: captured_Write)
  qed
qed

lemma captured_WriteHeader_Write:
  "capturedStatus (cs @ [CallWriteHeader code, CallWrite b]) = (if code = 0 then 200 else code)"
  using captured_Write[of "cs @ [CallWriteHeader code]" b] by (simp add: captured_WriteHeader)

lemma Instrument_counted:
  assumes "standardInstruments m"
      and "handler responseWriterImplements r (countedRequest r m) h = (cs, h')"
  shows "Instrument handler w r elapsed m h =
           Inr (w\<lparr>received := received w @ cs\<rparr>,
                (countedRequest r m)\<lparr>httpDuration := observed (requestKey r m) elapsed (httpDuration m),
                   httpErrors := errorsAfter r (capturedStatus cs) m\<rparr>,
                h')"
  using assms(2) unfolding countedRequest_def requestKey_def
  by (simp add: Instrument_eq[OF assms(1)] Let_def)

lemma children_incremented:
  "k' \<noteq> k \<Longrightarrow> cChildren (incremented k cv) k' = cChildren cv k'"
  by (simp add: incremented_def)

lemma New_fresh_values:
  assumes "New opts = Inr m"
  shows "counterValue (httpRequests m) k = 0" and "histCount (httpDuration m) k = 0"
    and "counterValue (httpErrors m) k = 0" and "counterValue (applicationEvent m) k = 0"
    and "gaugeValue (serviceGauge m) k = 0"
  by (simp_all add: New_Inr[OF assms] NewCounterVec_def NewHistogramVec_def NewGaugeVec_def
      counterValue_def histCount_def gaugeValue_def)

lemma New_serviceName:
  "serviceName (projr (New [WithServiceName n])) = n"
  "serviceName (projr (New [])) = ''default''"
  using New_Inr(1)[OF New_plain(2), of n] New_Inr(1)[OF New_plain(1)]
  by (simp_all add: applyOptions_def)

lemma Write_forwards:
  "ResponseWriter (Write b rw)
     = (ResponseWriter rw)\<lparr>received := received (ResponseWriter rw) @ [CallWrite b]\<rparr>"
  by (simp add: Write_def Let_def deliver_def)

lemma Write_status:
  "statusCode (Write b rw) = (if statusCode rw = 0 then StatusOK else statusCode rw)"
  by (simp add: Write_def Let_def)

lemma standard_counted: "standardInstruments m \<Longrightarrow>
  standardInstruments ((countedRequest r m)\<lparr>httpDuration := observed k v (httpDuration m),
     httpErrors := errorsAfter r code m\<rparr>)"
  by (simp add: standardInstruments_def countedRequest_def errorsAfter_def)

lemma Instrument_step:
  assumes "standardInstruments m"
  shows "\<exists>w' m' h'. Instrument handler w r elapsed m h = Inr (w', m', h') \<and>
           standardInstruments m' \<and> serviceName m' = serviceName m \<and>
           (\<forall>k. counterValue (httpRequests m') k
                  = (if k = requestKey r m then counterValue (httpRequests m) k + 1
                     else counterValue (httpRequests m) k)) \<and>
           (\<forall>k. histCount (httpDuration m') k
                  = (if k = requestKey r m then histCount (httpDuration m) k + 1
                     else histCount (httpDuration m) k))"
proof -
  obtain cs h' where hd: "handler responseWriterImplements r (countedRequest r m) h = (cs, h')"
    by (cases "handler responseWriterImplements r (countedRequest r m) h")
  show ?thesis
    unfolding Instrument_counted[where handler = handler, OF assms hd]
    using standard_counted[OF assms]
    by (simp add: countedRequest_def counterValue_incremented histCount_observed)
qed

lemma InstrumentAll_counts:
  assumes "standardInstruments m"
  shows "\<exists>m' h'. InstrumentAll handler reqs m h = Inr (m', h') \<and>
           standardInstruments m' \<and> serviceName m' = serviceName m \<and>
           counterValue (httpRequests m') [me, p, serviceName m]
             = counterValue (httpRequests m) [me, p, serviceName m]
               + length (filter (\<lambda>(w, r, d). httpMethod r = me \<and> urlPath r = p) reqs) \<and>
           histCount (httpDuration m') [me, p, serviceName m]
             = histCount (httpDuration m) [me, p, serviceName m]
               + length (filter (\<lambda>(w, r, d). httpMethod r = me \<and> urlPath r = p) reqs)"
  using assms
proof (induction reqs arbitrary: m h)
  case Nil
  then show ?case by simp
next
  case (Cons x reqs)
  obtain w r d where x: "x = (w, r, d)" by (cases x)
  from Instrument_step[OF Cons.prems, of handler w r d h]
  obtain w1 m1 h1 where i: "Instrument handler w r d m h = Inr (w1, m1, h1)"
    and s1: "standardInstruments m1" and n1: "serviceName m1 = serviceName m"
    and c1: "\<And>k. counterValue (httpRequests m1) k
                  = (if k = requestKey r m then counterValue (httpRequests m) k + 1
                     else counterValue (httpRequests m) k)"
    and d1: "\<And>k. histCount (httpDuration m1) k
                  = (if k = requestKey r m then histCount (httpDuration m) k + 1
                     else histCount (httpDuration m) k)"
    by blast
  from Cons.IH[OF s1, of h1]
  obtain m' h' where a: "InstrumentAll handler reqs m1 h1 = Inr (m', h')"
    and s': "standardInstruments m'" and n': "serviceName m' = serviceName m1"
    and c': "counterValue (httpRequests m') [me, p, serviceName m1]
             = counterValue (httpRequests m1) [me, p, serviceName m1]
               + length (filter (\<lambda>(w, r, d). httpMethod r = me \<and> urlPath r = p) reqs)"
    and d': "histCount (httpDuration m') [me, p, serviceName m1]
             = histCount (httpDuration m1) [me, p, serviceName m1]
               + length (filter (\<lambda>(w, r, d). httpMethod r = me \<and> urlPath r = p) reqs)"
    by blast
  have "InstrumentAll handler (x # reqs) m h = Inr (m', h')"
    by (simp add: x i a)
  moreover have "counterValue (httpRequests m') [me, p, serviceName m]
             = counterValue (httpRequests m) [me, p, serviceName m]
               + length (filter (\<lambda>(w, r, d). httpMethod r = me \<and> urlPath r = p) (x # reqs))"
    using c' by (auto simp: n1 c1 x requestKey_def)
  moreover have "histCount (httpDuration m') [me, p, serviceName m]
             = histCount (httpDuration m) [me, p, serviceName m]
               + length (filter (\<lambda>(w, r, d). httpMethod r = me \<and> urlPath r = p) (x # reqs))"
    using d' by (auto simp: n1 d1 x requestKey_def)
  ultimately show ?case using s' n' n1 by simp
qed

lemma gaugeSet_eq:
  "gaugeSet lvs v gv =
     (if length lvs \<noteq> length (variableLabels (gDesc gv)) then Inl PanicLabelCardinality
      else Inr (gv\<lparr>gChildren := (gChildren gv)(lvs \<mapsto> v)\<rparr>))"
  by (simp add: gaugeSet_def)

lemma gaugeAdd_eq:
  "gaugeAdd lvs v gv =
     (if length lvs \<noteq> length (variableLabels (gDesc gv)) then Inl PanicLabelCardinality
      else Inr (gv\<lparr>gChildren := (gChildren gv)(lvs \<mapsto> f64add (gaugeValue gv lvs) v)\<rparr>))"
  by (simp add: gaugeAdd_def gaugeValue_def)


lemma SetGauge_standard:
  "standardInstruments m \<Longrightarrow>
     SetGauge name v m
       = Inr (m\<lparr>serviceGauge := (serviceGauge m)
                \<lparr>gChildren := (gChildren (serviceGauge m))([name, serviceName m] \<mapsto> v)\<rparr>\<rparr>)"
  by (simp add: SetGauge_def gaugeSet_eq standardInstruments_def)

lemma IncrementGauge_standard:
  "standardInstruments m \<Longrightarrow>
     IncrementGauge name m
       = Inr (m\<lparr>serviceGauge := (serviceGauge m)
                \<lparr>gChildren := (gChildren (serviceGauge m))
                   ([name, serviceName m]
                      \<mapsto> f64add (gaugeValue (serviceGauge m) [name, serviceName m]) 1)\<rparr>\<rparr>)"
  by (simp add: IncrementGauge_def gaugeAdd_eq standardInstruments_def)

lemma DecrementGauge_standard:
  "standardInstruments m \<Longrightarrow>
     DecrementGauge name m
       = Inr (m\<lparr>serviceGauge := (serviceGauge m)
                \<lparr>gChildren := (gChildren (serviceGauge m))
                   ([name, serviceName m]
                      \<mapsto> f64add (gaugeValue (serviceGauge m) [name, serviceName m]) (- 1))\<rparr>\<rparr>)"
  by (simp add: DecrementGauge_def gaugeAdd_eq standardInstruments_def)

section \<open>Rounding and the gauge: auxiliary facts\<close>

lemma roundHalfEven_int: "roundHalfEven (of_int j) = j"
  by (simp add: roundHalfEven_def Let_def)

lemma pow2_nonpos: "e \<le> 0 \<Longrightarrow> pow2 e = 1 / 2 ^ nat (- e)"
  by (cases "e = 0") (simp_all add: pow2_def)

lemma round64_scaled:
  assumes "e \<le> 0"
  shows "of_int (roundHalfEven (of_int k / pow2 e)) * pow2 e = (of_int k :: rat)"
proof -
  have "of_int k / pow2 e = (of_int (k * 2 ^ nat (- e)) :: rat)"
    by (simp add: pow2_nonpos[OF assms])
  then have "roundHalfEven (of_int k / pow2 e) = k * 2 ^ nat (- e)"
    by (simp only: roundHalfEven_int)
  then show ?thesis
    by (simp add: pow2_nonpos[OF assms])
qed

lemma bitlen_le: "k < 2 ^ n \<Longrightarrow> bitlen k \<le> int n"
proof (induction n arbitrary: k)
  case 0
  then show ?case by (simp add: bitlen.simps)
next
  case (Suc n)
  show ?case
  proof (cases "k \<le> 0")
    case True
    then show ?thesis by (simp add: bitlen.simps)
  next
    case False
    from Suc.prems have "k div 2 < 2 ^ n" by simp
    from Suc.IH[OF this] False show ?thesis by (subst bitlen.simps) simp
  qed
qed

lemma ilog2_int_bound:
  assumes "0 < k" and "k < 2 ^ 53"
  shows "ilog2 (of_int k) \<le> 52"
proof -
  have "bitlen k \<le> 53" using bitlen_le[OF assms(2)] by simp
  moreover have "(1::rat) \<le> of_int k" using assms by simp
  ultimately show ?thesis by (simp add: ilog2_def)
qed

lemma round64_int_small:
  assumes "\<bar>k\<bar> < 2 ^ 53"
  shows "round64 (of_int k) = of_int k"
proof (cases "k = 0")
  case True
  then show ?thesis by (simp add: round64_def)
next
  case False
  then have pos: "0 < \<bar>k\<bar>" by simp
  have "ilog2 \<bar>of_int k\<bar> = ilog2 (of_int \<bar>k\<bar>)" by simp
  also have "\<dots> \<le> 52" using pos assms by (rule ilog2_int_bound)
  finally have "max (ilog2 \<bar>of_int k\<bar> - 52) (- 1074) \<le> 0" by simp
  from round64_scaled[OF this, of k] False show ?thesis
    by (simp add: round64_def Let_def)
qed

lemma round64_pow53: "round64 (2 ^ 53) = 2 ^ 53" "round64 (- (2 ^ 53)) = - (2 ^ 53)"
  by code_simp+

lemma round64_int:
  assumes "\<bar>k\<bar> \<le> 2 ^ 53"
  shows "round64 (of_int k) = of_int k"
proof (cases "\<bar>k\<bar> < 2 ^ 53")
  case True
  then show ?thesis by (rule round64_int_small)
next
  case False
  with assms have "k = 2 ^ 53 \<or> k = - (2 ^ 53)" by linarith
  then show ?thesis using round64_pow53 by auto
qed

lemma inc_dec_int:
  assumes "\<bar>n\<bar> < 2 ^ 53"
  shows "f64add (f64add (of_int n) 1) (- 1) = of_int n"
proof -
  have "f64add (of_int n) 1 = round64 (of_int (n + 1))" by (simp add: f64add_def)
  also have "\<dots> = of_int (n + 1)" using assms by (intro round64_int) simp
  finally have a: "f64add (of_int n) 1 = of_int (n + 1)" .
  have "f64add (of_int (n + 1)) (- 1) = round64 (of_int n)" by (simp add: f64add_def)
  also have "\<dots> = of_int n" using assms by (intro round64_int) simp
  finally show ?thesis by (simp only: a)
qed

lemma inc_dec_pow53:
  "f64add (2 ^ 53) 1 = 2 ^ 53" "f64add (f64add (2 ^ 53) 1) (- 1) = 2 ^ 53 - 1"
  by code_simp+


lemma gaugeValue_upd:
  "gaugeValue (gv\<lparr>gChildren := (gChildren gv)(k \<mapsto> x)\<rparr>) k' = (if k' = k then x else gaugeValue gv k')"
  by (simp add: gaugeValue_def)

lemma standard_gauge_upd:
  "standardInstruments m \<Longrightarrow>
     standardInstruments (m\<lparr>serviceGauge := (serviceGauge m)\<lparr>gChildren := c\<rparr>\<rparr>)"
  by (simp add: standardInstruments_def)

section \<open>Registration: names are unique and prefixed\<close>

text \<open>
  C1. For every valid name and label list, a registration under a name the registry does not
  hold succeeds, whichever of the three kinds it is: the registry gains the one new
  descriptor and nothing else of the \<^verbatim>\<open>Metrics\<close> changes. Once the name is in the registry,
  every registration under it, of whichever kind, returns the error that wraps the
  library's already-registered error, and leaves the \<^verbatim>\<open>Metrics\<close>, with the registry and the
  standard instruments, exactly as they were.
\<close>

theorem register_once:
  assumes "validDesc (customDesc name hlp labels)"
      and "validDesc (customDesc name hlp2 labels2)"
      and "fqName (customDesc name hlp labels) \<notin> set (registeredNames (registry m))"
  shows "registerAs k1 name hlp labels m
           = (None, m\<lparr>registry := registry m @ [customDesc name hlp labels]\<rparr>) \<and>
         (fqName (customDesc name hlp labels) \<in> set (registeredNames (registry m1)) \<longrightarrow>
          registerAs k2 name hlp2 labels2 m1
           = (Some (ErrFailedToRegister (kindName k2) name
                     (ErrAlreadyRegistered (fqName (customDesc name hlp labels)))), m1)) \<and>
         fqName (customDesc name hlp labels)
           \<in> set (registeredNames (registry (snd (registerAs k1 name hlp labels m))))"
  using assms
  by (simp add: registerAs_eq Register_single registeredNames_def customDesc_def)

theorem register_once_witness:
  "validDesc (customDesc ''test_counter'' ''A test counter'' [''label1'']) \<and>
   validDesc (customDesc ''test_counter'' ''The same name again'' []) \<and>
   fqName (customDesc ''test_counter'' ''A test counter'' [''label1''])
     \<notin> set (registeredNames (registry (projr (New [WithServiceName ''test-service''])))) \<and>
   registerAs CounterKind ''test_counter'' ''A test counter'' [''label1'']
       (projr (New [WithServiceName ''test-service'']))
     = (None, (projr (New [WithServiceName ''test-service'']))
          \<lparr>registry := registry (projr (New [WithServiceName ''test-service'']))
             @ [customDesc ''test_counter'' ''A test counter'' [''label1'']]\<rparr>) \<and>
   registerAs GaugeKind ''test_counter'' ''The same name again'' []
       ((projr (New [WithServiceName ''test-service'']))
          \<lparr>registry := registry (projr (New [WithServiceName ''test-service'']))
             @ [customDesc ''test_counter'' ''A test counter'' [''label1'']]\<rparr>)
     = (Some (ErrFailedToRegister ''gauge'' ''test_counter''
          (ErrAlreadyRegistered ''nexen_service_test_counter'')),
        (projr (New [WithServiceName ''test-service'']))
          \<lparr>registry := registry (projr (New [WithServiceName ''test-service'']))
             @ [customDesc ''test_counter'' ''A test counter'' [''label1'']]\<rparr>)"
proof -
  let ?M = "projr (New [WithServiceName ''test-service''])"
  let ?d = "customDesc ''test_counter'' ''A test counter'' [''label1'']"
  let ?M1 = "?M\<lparr>registry := registry ?M @ [?d]\<rparr>"
  have e: "New [WithServiceName ''test-service''] = Inr ?M"
    by (rule New_projr) (simp add: applyOptions_plain registeredNames_def)
  have h1: "validDesc ?d"
    by (simp add: customDesc_def name_rules)
  have h2: "validDesc (customDesc ''test_counter'' ''The same name again'' [])"
    by (simp add: customDesc_def name_rules)
  have fq: "fqName ?d = ''nexen_service_test_counter''"
    by (simp add: customDesc_def BuildFQName_def namespace_def subsystem_def)
  have h3: "fqName ?d \<notin> set (registeredNames (registry ?M))"
    using New_names[OF e] by (simp add: applyOptions_plain registeredNames_def standardNames_def fq)
  have mem: "fqName ?d \<in> set (registeredNames (registry ?M1))"
    by (simp add: registeredNames_def)
  note t = register_once[OF h1 h2 h3, of CounterKind ?M1 GaugeKind]
  have c1: "registerAs CounterKind ''test_counter'' ''A test counter'' [''label1''] ?M = (None, ?M1)"
    using t by (rule conjunct1)
  have c2: "registerAs GaugeKind ''test_counter'' ''The same name again'' [] ?M1
              = (Some (ErrFailedToRegister ''gauge'' ''test_counter''
                   (ErrAlreadyRegistered ''nexen_service_test_counter'')), ?M1)"
    using t mem unfolding fq by (simp del: registerAs.simps)
  show ?thesis using h1 h2 h3 c1 c2 by blast
qed

text \<open>
  C9. Every metric the package registers carries the fixed prefix: the five standard
  instruments that \<^verbatim>\<open>New\<close> creates are registered under the names
  \<^verbatim>\<open>nexen_service_http_requests_total\<close>, \<^verbatim>\<open>nexen_service_http_request_duration_seconds\<close>,
  \<^verbatim>\<open>nexen_service_http_errors_total\<close>, \<^verbatim>\<open>nexen_service_application_events_total\<close> and
  \<^verbatim>\<open>nexen_service_gauge\<close>, and a custom counter, histogram or gauge registered under
  \<open>name\<close> has the fully-qualified name namespace, underscore, subsystem, underscore,
  \<open>name\<close>, that is \<^verbatim>\<open>nexen_service_\<close> followed by \<open>name\<close>, and is in the registry
  under it.
\<close>

theorem names_prefixed:
  "(New opts = Inr m0 \<longrightarrow>
      fqName (cDesc (httpRequests m0)) = ''nexen_service_http_requests_total'' \<and>
      fqName (hDesc (httpDuration m0)) = ''nexen_service_http_request_duration_seconds'' \<and>
      fqName (cDesc (httpErrors m0)) = ''nexen_service_http_errors_total'' \<and>
      fqName (cDesc (applicationEvent m0)) = ''nexen_service_application_events_total'' \<and>
      fqName (gDesc (serviceGauge m0)) = ''nexen_service_gauge'' \<and>
      set (map cDesc [httpRequests m0, httpErrors m0, applicationEvent m0]
           @ [hDesc (httpDuration m0), gDesc (serviceGauge m0)]) \<subseteq> set (registry m0)) \<and>
   (RegisterCounter name hlp labels m = (Inr cv, m') \<longrightarrow>
      fqName (cDesc cv) = namespace @ ''_'' @ subsystem @ ''_'' @ name \<and>
      fqName (cDesc cv) = ''nexen_service_'' @ name \<and> cDesc cv \<in> set (registry m')) \<and>
   (RegisterHistogram name hlp buckets labels m = (Inr hv, m') \<longrightarrow>
      fqName (hDesc hv) = namespace @ ''_'' @ subsystem @ ''_'' @ name \<and>
      fqName (hDesc hv) = ''nexen_service_'' @ name \<and> hDesc hv \<in> set (registry m')) \<and>
   (RegisterGauge name hlp labels m = (Inr gv, m') \<longrightarrow>
      fqName (gDesc gv) = namespace @ ''_'' @ subsystem @ ''_'' @ name \<and>
      fqName (gDesc gv) = ''nexen_service_'' @ name \<and> gDesc gv \<in> set (registry m'))"
proof (intro conjI impI)
  assume n: "New opts = Inr m0"
  show "fqName (cDesc (httpRequests m0)) = ''nexen_service_http_requests_total''"
       "fqName (hDesc (httpDuration m0)) = ''nexen_service_http_request_duration_seconds''"
       "fqName (cDesc (httpErrors m0)) = ''nexen_service_http_errors_total''"
       "fqName (cDesc (applicationEvent m0)) = ''nexen_service_application_events_total''"
       "fqName (gDesc (serviceGauge m0)) = ''nexen_service_gauge''"
    by (simp_all add: New_Inr[OF n] NewCounterVec_def NewHistogramVec_def NewGaugeVec_def prefix_fq)
  show "set (map cDesc [httpRequests m0, httpErrors m0, applicationEvent m0]
           @ [hDesc (httpDuration m0), gDesc (serviceGauge m0)]) \<subseteq> set (registry m0)"
    by (subst (1 2 3 4 5 6) New_Inr_record[OF n]) simp
next
  assume r: "RegisterCounter name hlp labels m = (Inr cv, m')"
  have ne: "name \<noteq> []" using RegisterCounter_Inr(2)[OF r] by (rule valid_custom_name)
  show "fqName (cDesc cv) = namespace @ ''_'' @ subsystem @ ''_'' @ name"
       "fqName (cDesc cv) = ''nexen_service_'' @ name"
       "cDesc cv \<in> set (registry m')"
    using ne
    by (simp_all add: RegisterCounter_Inr(1,3)[OF r] NewCounterVec_def customDesc_def prefix_fq[unfolded namespace_def subsystem_def]
        namespace_def subsystem_def)
next
  assume r: "RegisterHistogram name hlp buckets labels m = (Inr hv, m')"
  have ne: "name \<noteq> []" using RegisterHistogram_Inr(2)[OF r] by (rule valid_custom_name)
  show "fqName (hDesc hv) = namespace @ ''_'' @ subsystem @ ''_'' @ name"
       "fqName (hDesc hv) = ''nexen_service_'' @ name"
       "hDesc hv \<in> set (registry m')"
    using ne
    by (simp_all add: RegisterHistogram_Inr(1,3)[OF r] NewHistogramVec_def customDesc_def prefix_fq[unfolded namespace_def subsystem_def]
        namespace_def subsystem_def)
next
  assume r: "RegisterGauge name hlp labels m = (Inr gv, m')"
  have ne: "name \<noteq> []" using RegisterGauge_Inr(2)[OF r] by (rule valid_custom_name)
  show "fqName (gDesc gv) = namespace @ ''_'' @ subsystem @ ''_'' @ name"
       "fqName (gDesc gv) = ''nexen_service_'' @ name"
       "gDesc gv \<in> set (registry m')"
    using ne
    by (simp_all add: RegisterGauge_Inr(1,3)[OF r] NewGaugeVec_def customDesc_def prefix_fq[unfolded namespace_def subsystem_def]
        namespace_def subsystem_def)
qed

theorem names_prefixed_witness:
  "New [] = Inr (projr (New [])) \<and>
   fqName (cDesc (httpRequests (projr (New [])))) = ''nexen_service_http_requests_total'' \<and>
   fqName (hDesc (httpDuration (projr (New [])))) = ''nexen_service_http_request_duration_seconds'' \<and>
   fqName (cDesc (httpErrors (projr (New [])))) = ''nexen_service_http_errors_total'' \<and>
   fqName (cDesc (applicationEvent (projr (New [])))) = ''nexen_service_application_events_total'' \<and>
   fqName (gDesc (serviceGauge (projr (New [])))) = ''nexen_service_gauge'' \<and>
   RegisterCounter ''test_metric'' ''A test metric'' [''label1''] (projr (New []))
     = (Inr (NewCounterVec namespace subsystem ''test_metric'' ''A test metric''
               [''label1'', ''service'']),
        (projr (New []))\<lparr>registry := registry (projr (New [])) @
           [customDesc ''test_metric'' ''A test metric'' [''label1'']]\<rparr>) \<and>
   fqName (cDesc (NewCounterVec namespace subsystem ''test_metric'' ''A test metric''
               [''label1'', ''service''])) = ''nexen_service_test_metric'' \<and>
   RegisterHistogram ''test_metric'' ''A test metric'' (Some DefaultLLMLatencyBuckets)
       [''label1''] (projr (New []))
     = (Inr (NewHistogramVec namespace subsystem ''test_metric'' ''A test metric''
               (Some DefaultLLMLatencyBuckets) [''label1'', ''service'']),
        (projr (New []))\<lparr>registry := registry (projr (New [])) @
           [customDesc ''test_metric'' ''A test metric'' [''label1'']]\<rparr>) \<and>
   fqName (hDesc (NewHistogramVec namespace subsystem ''test_metric'' ''A test metric''
               (Some DefaultLLMLatencyBuckets) [''label1'', ''service'']))
     = ''nexen_service_test_metric'' \<and>
   RegisterGauge ''test_metric'' ''A test metric'' [''label1''] (projr (New []))
     = (Inr (NewGaugeVec namespace subsystem ''test_metric'' ''A test metric''
               [''label1'', ''service'']),
        (projr (New []))\<lparr>registry := registry (projr (New [])) @
           [customDesc ''test_metric'' ''A test metric'' [''label1'']]\<rparr>) \<and>
   fqName (gDesc (NewGaugeVec namespace subsystem ''test_metric'' ''A test metric''
               [''label1'', ''service''])) = ''nexen_service_test_metric''"
proof -
  let ?M = "projr (New [])"
  let ?M' = "?M\<lparr>registry := registry ?M @ [customDesc ''test_metric'' ''A test metric'' [''label1'']]\<rparr>"
  let ?cv = "NewCounterVec namespace subsystem ''test_metric'' ''A test metric'' [''label1'', ''service'']"
  let ?hv = "NewHistogramVec namespace subsystem ''test_metric'' ''A test metric''
               (Some DefaultLLMLatencyBuckets) [''label1'', ''service'']"
  let ?gv = "NewGaugeVec namespace subsystem ''test_metric'' ''A test metric'' [''label1'', ''service'']"
  have e: "New [] = Inr ?M" by (rule New_plain)
  have v: "validDesc (customDesc ''test_metric'' ''A test metric'' [''label1''])"
    by (simp add: customDesc_def name_rules)
  have f: "fqName (customDesc ''test_metric'' ''A test metric'' [''label1''])
             \<notin> set (registeredNames (registry ?M))"
    by (simp add: New_plain_names standardNames_def customDesc_def BuildFQName_def namespace_def
        subsystem_def)
  have c: "RegisterCounter ''test_metric'' ''A test metric'' [''label1''] ?M = (Inr ?cv, ?M')"
    using RegisterCounter_fresh[OF v f] by simp
  have h: "RegisterHistogram ''test_metric'' ''A test metric'' (Some DefaultLLMLatencyBuckets)
             [''label1''] ?M = (Inr ?hv, ?M')"
    using RegisterHistogram_fresh[OF v f, of "Some DefaultLLMLatencyBuckets"] by simp
  have g: "RegisterGauge ''test_metric'' ''A test metric'' [''label1''] ?M = (Inr ?gv, ?M')"
    using RegisterGauge_fresh[OF v f] by simp
  note t = names_prefixed[where opts = "[]" and ?m0.0 = ?M and name = "''test_metric''"
      and hlp = "''A test metric''" and labels = "[''label1'']" and m = ?M and m' = ?M'
      and cv = ?cv and hv = ?hv and gv = ?gv and buckets = "Some DefaultLLMLatencyBuckets"]
  from t e have s: "fqName (cDesc (httpRequests ?M)) = ''nexen_service_http_requests_total''"
    "fqName (hDesc (httpDuration ?M)) = ''nexen_service_http_request_duration_seconds''"
    "fqName (cDesc (httpErrors ?M)) = ''nexen_service_http_errors_total''"
    "fqName (cDesc (applicationEvent ?M)) = ''nexen_service_application_events_total''"
    "fqName (gDesc (serviceGauge ?M)) = ''nexen_service_gauge''"
    by blast+
  from t c have c': "fqName (cDesc ?cv) = ''nexen_service_'' @ ''test_metric''" by blast
  from t h have h': "fqName (hDesc ?hv) = ''nexen_service_'' @ ''test_metric''" by blast
  from t g have g': "fqName (gDesc ?gv) = ''nexen_service_'' @ ''test_metric''" by blast
  have a: "''nexen_service_'' @ ''test_metric'' = ''nexen_service_test_metric''" by simp
  show ?thesis
    using e s c h g c'[unfolded a] h'[unfolded a] g'[unfolded a] by blast
qed

section \<open>The capturing writer\<close>

text \<open>
  C2, as the code has it. Nothing is recorded before the first set-status call or body write:
  with no call, or with header calls only, the recorded status is zero, which is below the
  error threshold of 400. A body write records 200 while the recorded status is still zero,
  and never changes a recorded status that is not zero. An explicit set-status call records
  its code whenever it comes, also when a status has been recorded before: the recorded
  status is that of the latest set-status call, not of the earliest event.
\<close>

theorem status_capture:
  "capturedStatus [] = 0 \<and>
   ((\<forall>c\<in>set cs. \<exists>k v. c = SetHeader k v) \<longrightarrow> capturedStatus cs = 0 \<and> \<not> capturedStatus cs \<ge> 400) \<and>
   (capturedStatus cs = 0 \<longrightarrow> capturedStatus (cs @ [CallWrite b]) = 200) \<and>
   (capturedStatus cs \<noteq> 0 \<longrightarrow> capturedStatus (cs @ [CallWrite b]) = capturedStatus cs) \<and>
   capturedStatus (cs @ [SetHeader k v]) = capturedStatus cs \<and>
   capturedStatus (cs @ [CallWriteHeader code]) = code \<and>
   capturedStatus (cs @ [CallWriteHeader code] @ [CallWrite b]) = (if code = 0 then 200 else code)"
  using captured_headers_only[of cs]
  by (simp add: captured_Nil captured_Write captured_SetHeader captured_WriteHeader
      captured_WriteHeader_Write)

theorem status_capture_witness:
  "capturedStatus [SetHeader ''Content-Type'' ''text/plain''] = 0 \<and>
   capturedStatus ([SetHeader ''Content-Type'' ''text/plain''] @ [CallWrite ''ok'']) = 200 \<and>
   capturedStatus [CallWriteHeader 404] \<noteq> 0 \<and>
   capturedStatus ([CallWriteHeader 404] @ [CallWrite ''gone'']) = capturedStatus [CallWriteHeader 404] \<and>
   capturedStatus ([CallWriteHeader 404] @ [CallWriteHeader 500]) = 500"
proof -
  have a: "\<forall>c\<in>set [SetHeader ''Content-Type'' ''text/plain'']. \<exists>k v. c = SetHeader k v" by simp
  note t1 = status_capture[of "[SetHeader ''Content-Type'' ''text/plain'']" "''ok''"]
  have z: "capturedStatus [SetHeader ''Content-Type'' ''text/plain''] = 0" using t1 a by blast
  have w: "capturedStatus ([SetHeader ''Content-Type'' ''text/plain''] @ [CallWrite ''ok'']) = 200"
    using t1 z by blast
  note t2 = status_capture[of "[CallWriteHeader 404]" "''gone''" _ _ 500]
  have n: "capturedStatus [CallWriteHeader 404] \<noteq> 0"
    using status_capture[of "[]" _ _ _ 404] by simp
  have k: "capturedStatus ([CallWriteHeader 404] @ [CallWrite ''gone'']) = capturedStatus [CallWriteHeader 404]"
    using t2 n by blast
  have l: "capturedStatus ([CallWriteHeader 404] @ [CallWriteHeader 500]) = 500"
    using t2 by blast
  show ?thesis by (intro conjI z w n k l)
qed

text \<open>
  The claim as the spec words it, that a status once recorded stays, fails: a second
  set-status call, or a set-status call after a body write, replaces the recorded status.
\<close>

theorem status_capture_counterexample:
  "capturedStatus [CallWriteHeader 200] = 200 \<and>
   capturedStatus [CallWriteHeader 200, CallWriteHeader 500] = 500 \<and>
   capturedStatus [CallWrite ''ok''] = 200 \<and>
   capturedStatus [CallWrite ''ok'', CallWriteHeader 500] = 500"
  by (simp add: capturedStatus_def serveCalls_def WriteHeader_def Write_def Let_def StatusOK_def
      deliver_def)

section \<open>The middleware\<close>

text \<open>
  C3. For every request that the instrumented handler processes, on \<^verbatim>\<open>Metrics\<close> with the
  standard instruments: the call returns, and if the captured status code is at least 400 the
  error counter for the request's method, its path, the status text of the code and the
  service name is one higher than before, every other child of the error counter being as it
  was; a captured status of 500 raises the child labelled \<^verbatim>\<open>Internal Server Error\<close>; and if
  the captured status code is below 400 the error counter is unchanged.
\<close>

theorem error_counter:
  assumes "standardInstruments m"
      and "handler responseWriterImplements r (countedRequest r m) h = (cs, h')"
  shows "\<exists>w' m'. Instrument handler w r elapsed m h = Inr (w', m', h') \<and>
           (capturedStatus cs \<ge> 400 \<longrightarrow>
              counterValue (httpErrors m')
                  [httpMethod r, urlPath r, StatusText (capturedStatus cs), serviceName m]
                = counterValue (httpErrors m)
                    [httpMethod r, urlPath r, StatusText (capturedStatus cs), serviceName m] + 1 \<and>
              (\<forall>k. k \<noteq> [httpMethod r, urlPath r, StatusText (capturedStatus cs), serviceName m]
                    \<longrightarrow> cChildren (httpErrors m') k = cChildren (httpErrors m) k)) \<and>
           (capturedStatus cs = 500 \<longrightarrow>
              counterValue (httpErrors m')
                  [httpMethod r, urlPath r, ''Internal Server Error'', serviceName m]
                = counterValue (httpErrors m)
                    [httpMethod r, urlPath r, ''Internal Server Error'', serviceName m] + 1) \<and>
           (capturedStatus cs < 400 \<longrightarrow> httpErrors m' = httpErrors m)"
proof -
  have st: "StatusText 500 = ''Internal Server Error''"
    by (simp add: StatusText_def statusTexts_def)
  show ?thesis
    unfolding Instrument_counted[where handler = handler, OF assms]
    by (auto simp: errorsAfter_def countedRequest_def counterValue_incremented st children_incremented)
qed


theorem error_counter_witness:
  "standardInstruments (projr (New [WithServiceName ''test-service''])) \<and>
   testHandler responseWriterImplements \<lparr>httpMethod = ''GET'', urlPath = ''/error''\<rparr>
       (countedRequest \<lparr>httpMethod = ''GET'', urlPath = ''/error''\<rparr>
          (projr (New [WithServiceName ''test-service'']))) ()
     = ([CallWriteHeader 500], ()) \<and>
   capturedStatus [CallWriteHeader 500] = 500 \<and>
   counterValue
       (httpErrors (fst (snd (projr
          (Instrument testHandler \<lparr>implements = [Flusher], received = []\<rparr>
             \<lparr>httpMethod = ''GET'', urlPath = ''/error''\<rparr> 0
             (projr (New [WithServiceName ''test-service''])) ())))))
       [''GET'', ''/error'', ''Internal Server Error'', ''test-service''] = 1 \<and>
   testHandler responseWriterImplements \<lparr>httpMethod = ''GET'', urlPath = ''/success''\<rparr>
       (countedRequest \<lparr>httpMethod = ''GET'', urlPath = ''/success''\<rparr>
          (projr (New [WithServiceName ''test-service'']))) ()
     = ([CallWriteHeader 200], ()) \<and>
   capturedStatus [CallWriteHeader 200] < 400 \<and>
   httpErrors (fst (snd (projr
          (Instrument testHandler \<lparr>implements = [Flusher], received = []\<rparr>
             \<lparr>httpMethod = ''GET'', urlPath = ''/success''\<rparr> 0
             (projr (New [WithServiceName ''test-service''])) ()))))
     = httpErrors (projr (New [WithServiceName ''test-service'']))"
proof -
  let ?M = "projr (New [WithServiceName ''test-service''])"
  let ?W = "\<lparr>implements = [Flusher], received = []\<rparr>"
  let ?E = "\<lparr>httpMethod = ''GET'', urlPath = ''/error''\<rparr>"
  let ?S = "\<lparr>httpMethod = ''GET'', urlPath = ''/success''\<rparr>"
  have std: "standardInstruments ?M" by (rule New_standard[OF New_plain(2)])
  have he: "testHandler responseWriterImplements ?E (countedRequest ?E ?M) () = ([CallWriteHeader 500], ())"
    by (simp add: testHandler_def)
  have hs: "testHandler responseWriterImplements ?S (countedRequest ?S ?M) () = ([CallWriteHeader 200], ())"
    by (simp add: testHandler_def)
  have ce: "capturedStatus [CallWriteHeader 500] = 500"
    using captured_WriteHeader[of "[]" 500] by simp
  have cs: "capturedStatus [CallWriteHeader 200] = 200"
    using captured_WriteHeader[of "[]" 200] by simp
  from error_counter[where handler = testHandler, OF std he, of ?W 0]
  obtain w1 m1 where i1: "Instrument testHandler ?W ?E 0 ?M () = Inr (w1, m1, ())"
    and v1: "counterValue (httpErrors m1) [''GET'', ''/error'', ''Internal Server Error'', serviceName ?M]
               = counterValue (httpErrors ?M) [''GET'', ''/error'', ''Internal Server Error'', serviceName ?M] + 1"
    using ce by auto
  from error_counter[where handler = testHandler, OF std hs, of ?W 0]
  obtain w2 m2 where i2: "Instrument testHandler ?W ?S 0 ?M () = Inr (w2, m2, ())"
    and v2: "httpErrors m2 = httpErrors ?M"
    using cs by auto
  have r1: "counterValue (httpErrors (fst (snd (projr (Instrument testHandler ?W ?E 0 ?M ())))))
       [''GET'', ''/error'', ''Internal Server Error'', ''test-service''] = 1"
    using v1 by (simp add: i1 New_serviceName New_fresh_values[OF New_plain(2)])
  have r2: "httpErrors (fst (snd (projr (Instrument testHandler ?W ?S 0 ?M ())))) = httpErrors ?M"
    using v2 by (simp add: i2)
  show ?thesis using std he hs ce cs r1 r2 by simp
qed

text \<open>
  C4. For every request in which the wrapped handler writes body bytes and makes no explicit
  set-status call, on \<^verbatim>\<open>Metrics\<close> with the standard instruments: the captured status is
  200, every call of the handler, the writes among them, reaches the underlying writer
  unchanged and in order, the instrumented handler returns, and the error counter is as it
  was. A single write records 200 when nothing was recorded and hands the bytes on.
\<close>

theorem write_without_status:
  assumes "standardInstruments m"
      and "handler responseWriterImplements r (countedRequest r m) h = (cs, h')"
      and "\<forall>code. CallWriteHeader code \<notin> set cs"
      and "CallWrite b \<in> set cs"
  shows "capturedStatus cs = StatusOK \<and> StatusOK = 200 \<and>
         (\<exists>m'. Instrument handler w r elapsed m h = Inr (w\<lparr>received := received w @ cs\<rparr>, m', h') \<and>
               httpErrors m' = httpErrors m) \<and>
         (statusCode rw = 0 \<longrightarrow> statusCode (Write b rw) = StatusOK) \<and>
         ResponseWriter (Write b rw)
           = (ResponseWriter rw)\<lparr>received := received (ResponseWriter rw) @ [CallWrite b]\<rparr>"
proof -
  have c: "capturedStatus cs = 200"
    using captured_no_WriteHeader[OF assms(3)] assms(4) by auto
  show ?thesis
    unfolding Instrument_counted[where handler = handler, OF assms(1,2)]
    by (simp add: c StatusOK_def errorsAfter_def countedRequest_def Write_forwards Write_status)
qed

theorem write_without_status_witness:
  "standardInstruments (projr (New [])) \<and>
   (\<lambda>caps r m h. ([SetHeader ''Content-Type'' ''text/plain'', CallWrite ''hello''], h))
       responseWriterImplements \<lparr>httpMethod = ''GET'', urlPath = ''/health''\<rparr>
       (countedRequest \<lparr>httpMethod = ''GET'', urlPath = ''/health''\<rparr> (projr (New []))) (0::nat)
     = ([SetHeader ''Content-Type'' ''text/plain'', CallWrite ''hello''], 0) \<and>
   (\<forall>code. CallWriteHeader code
       \<notin> set [SetHeader ''Content-Type'' ''text/plain'', CallWrite ''hello'']) \<and>
   CallWrite ''hello'' \<in> set [SetHeader ''Content-Type'' ''text/plain'', CallWrite ''hello''] \<and>
   capturedStatus [SetHeader ''Content-Type'' ''text/plain'', CallWrite ''hello''] = 200 \<and>
   received (fst (projr (Instrument
       (\<lambda>caps r m h. ([SetHeader ''Content-Type'' ''text/plain'', CallWrite ''hello''], h))
       \<lparr>implements = [], received = []\<rparr> \<lparr>httpMethod = ''GET'', urlPath = ''/health''\<rparr> 0
       (projr (New [])) (0::nat))))
     = [SetHeader ''Content-Type'' ''text/plain'', CallWrite ''hello''] \<and>
   httpErrors (fst (snd (projr (Instrument
       (\<lambda>caps r m h. ([SetHeader ''Content-Type'' ''text/plain'', CallWrite ''hello''], h))
       \<lparr>implements = [], received = []\<rparr> \<lparr>httpMethod = ''GET'', urlPath = ''/health''\<rparr> 0
       (projr (New [])) (0::nat)))))
     = httpErrors (projr (New []))"
proof -
  let ?M = "projr (New [])"
  let ?H = "\<lambda>(caps::Upgrade list) (r::Request) (m::Metrics) (h::nat).
              ([SetHeader ''Content-Type'' ''text/plain'', CallWrite ''hello''], h)"
  let ?R = "\<lparr>httpMethod = ''GET'', urlPath = ''/health''\<rparr>"
  let ?W = "\<lparr>implements = [], received = []\<rparr>"
  let ?cs = "[SetHeader ''Content-Type'' ''text/plain'', CallWrite ''hello'']"
  have std: "standardInstruments ?M" by (rule New_standard[OF New_plain(1)])
  have h: "?H responseWriterImplements ?R (countedRequest ?R ?M) 0 = (?cs, 0)" by simp
  have n: "\<forall>code. CallWriteHeader code \<notin> set ?cs" by simp
  have b: "CallWrite ''hello'' \<in> set ?cs" by simp
  note t = write_without_status[where handler = ?H and w = ?W and elapsed = 0 and r = ?R and m = ?M and h = 0
      and rw = "\<lparr>ResponseWriter = ?W, statusCode = 0\<rparr>", OF std h n b]
  have c: "capturedStatus ?cs = 200"
    using t[THEN conjunct1] t[THEN conjunct2, THEN conjunct1] by (rule trans)
  from t[THEN conjunct2, THEN conjunct2, THEN conjunct1]
  obtain m' where i: "Instrument ?H ?W ?R 0 ?M 0 = Inr (?W\<lparr>received := received ?W @ ?cs\<rparr>, m', 0)"
    and e: "httpErrors m' = httpErrors ?M"
    by blast
  show ?thesis using std n b c e by (simp add: i)
qed


text \<open>
  C6. For every list of requests to one method and path, processed one after the other by
  the instrumented handler on \<^verbatim>\<open>Metrics\<close> with the standard instruments: the run returns, and
  the request counter and the count of the duration histogram for the method, the path and
  the service name have each grown by the number of requests; on \<^verbatim>\<open>Metrics\<close> fresh from
  \<^verbatim>\<open>New\<close> they read exactly that number. For each request the wrapped handler is run on the
  \<^verbatim>\<open>Metrics\<close> in which the request counter for the request is already one higher: the
  increment comes before the delegation.
\<close>

theorem request_counts:
  assumes "standardInstruments m"
      and "\<forall>(w, r, elapsed)\<in>set reqs. httpMethod r = me \<and> urlPath r = p"
  shows "(\<exists>m' h'. InstrumentAll handler reqs m h = Inr (m', h') \<and>
            counterValue (httpRequests m') [me, p, serviceName m]
              = counterValue (httpRequests m) [me, p, serviceName m] + length reqs \<and>
            histCount (httpDuration m') [me, p, serviceName m]
              = histCount (httpDuration m) [me, p, serviceName m] + length reqs \<and>
            (New opts = Inr m \<longrightarrow>
               counterValue (httpRequests m') [me, p, serviceName m] = length reqs \<and>
               histCount (httpDuration m') [me, p, serviceName m] = length reqs)) \<and>
         (\<exists>m1. Instrument handler w r elapsed m h
                 = Inr (w\<lparr>received := received w
                          @ fst (handler responseWriterImplements r (countedRequest r m) h)\<rparr>,
                        m1, snd (handler responseWriterImplements r (countedRequest r m) h))) \<and>
         counterValue (httpRequests (countedRequest r m)) [httpMethod r, urlPath r, serviceName m]
           = counterValue (httpRequests m) [httpMethod r, urlPath r, serviceName m] + 1"
proof (intro conjI)
  have f: "filter (\<lambda>(w, r, d). httpMethod r = me \<and> urlPath r = p) reqs = reqs"
    using assms(2) by (auto simp: filter_id_conv)
  from InstrumentAll_counts[OF assms(1), of handler reqs h me p]
  obtain m' h' where a: "InstrumentAll handler reqs m h = Inr (m', h')"
    and c: "counterValue (httpRequests m') [me, p, serviceName m]
              = counterValue (httpRequests m) [me, p, serviceName m] + length reqs"
    and d: "histCount (httpDuration m') [me, p, serviceName m]
              = histCount (httpDuration m) [me, p, serviceName m] + length reqs"
    unfolding f by blast
  have "New opts = Inr m \<longrightarrow>
          counterValue (httpRequests m') [me, p, serviceName m] = length reqs \<and>
          histCount (httpDuration m') [me, p, serviceName m] = length reqs"
    using c d by (auto simp: New_fresh_values)
  with a c d
  show "\<exists>m' h'. InstrumentAll handler reqs m h = Inr (m', h') \<and>
            counterValue (httpRequests m') [me, p, serviceName m]
              = counterValue (httpRequests m) [me, p, serviceName m] + length reqs \<and>
            histCount (httpDuration m') [me, p, serviceName m]
              = histCount (httpDuration m) [me, p, serviceName m] + length reqs \<and>
            (New opts = Inr m \<longrightarrow>
               counterValue (httpRequests m') [me, p, serviceName m] = length reqs \<and>
               histCount (httpDuration m') [me, p, serviceName m] = length reqs)"
    by blast
next
  obtain cs h' where hd: "handler responseWriterImplements r (countedRequest r m) h = (cs, h')"
    by (cases "handler responseWriterImplements r (countedRequest r m) h")
  show "\<exists>m1. Instrument handler w r elapsed m h
                 = Inr (w\<lparr>received := received w
                          @ fst (handler responseWriterImplements r (countedRequest r m) h)\<rparr>,
                        m1, snd (handler responseWriterImplements r (countedRequest r m) h))"
    unfolding Instrument_counted[where handler = handler, OF assms(1) hd] hd by simp
next
  show "counterValue (httpRequests (countedRequest r m)) [httpMethod r, urlPath r, serviceName m]
           = counterValue (httpRequests m) [httpMethod r, urlPath r, serviceName m] + 1"
    by (simp add: countedRequest_def requestKey_def counterValue_incremented)
qed

theorem request_counts_witness:
  "standardInstruments (projr (New [WithServiceName ''test-service''])) \<and>
   New [WithServiceName ''test-service''] = Inr (projr (New [WithServiceName ''test-service''])) \<and>
   counterValue (httpRequests (fst (projr (InstrumentAll testHandler
       [(\<lparr>implements = [], received = []\<rparr>, \<lparr>httpMethod = ''GET'', urlPath = ''/success''\<rparr>, 1/100),
        (\<lparr>implements = [], received = []\<rparr>, \<lparr>httpMethod = ''GET'', urlPath = ''/success''\<rparr>, 2/100),
        (\<lparr>implements = [], received = []\<rparr>, \<lparr>httpMethod = ''GET'', urlPath = ''/success''\<rparr>, 3/100)]
       (projr (New [WithServiceName ''test-service''])) ()))))
     [''GET'', ''/success'', ''test-service''] = 3 \<and>
   histCount (httpDuration (fst (projr (InstrumentAll testHandler
       [(\<lparr>implements = [], received = []\<rparr>, \<lparr>httpMethod = ''GET'', urlPath = ''/success''\<rparr>, 1/100),
        (\<lparr>implements = [], received = []\<rparr>, \<lparr>httpMethod = ''GET'', urlPath = ''/success''\<rparr>, 2/100),
        (\<lparr>implements = [], received = []\<rparr>, \<lparr>httpMethod = ''GET'', urlPath = ''/success''\<rparr>, 3/100)]
       (projr (New [WithServiceName ''test-service''])) ()))))
     [''GET'', ''/success'', ''test-service''] = 3"
proof -
  let ?M = "projr (New [WithServiceName ''test-service''])"
  let ?W = "\<lparr>implements = [], received = []\<rparr>"
  let ?R = "\<lparr>httpMethod = ''GET'', urlPath = ''/success''\<rparr>"
  let ?reqs = "[(?W, ?R, 1/100), (?W, ?R, 2/100), (?W, ?R, 3/100::rat)]"
  have std: "standardInstruments ?M" by (rule New_standard[OF New_plain(2)])
  have same: "\<forall>(w, r, elapsed)\<in>set ?reqs. httpMethod r = ''GET'' \<and> urlPath r = ''/success''"
    by simp
  have new: "New [WithServiceName ''test-service''] = Inr ?M" by (rule New_plain)
  note t = request_counts[where handler = testHandler and reqs = ?reqs and m = ?M and h = "()"
      and me = "''GET''" and p = "''/success''" and opts = "[WithServiceName ''test-service'']"
      and w = ?W and r = ?R and elapsed = 0, OF std same]
  have ex: "\<exists>m' h'. InstrumentAll testHandler ?reqs ?M () = Inr (m', h') \<and>
     (counterValue (httpRequests m') [''GET'', ''/success'', serviceName ?M] = length ?reqs \<and>
      histCount (httpDuration m') [''GET'', ''/success'', serviceName ?M] = length ?reqs)"
    using t[THEN conjunct1] new by (elim exE conjE impE) (assumption, intro exI conjI, assumption+)
  then obtain m' h' where a: "InstrumentAll testHandler ?reqs ?M () = Inr (m', h')"
    and c: "counterValue (httpRequests m') [''GET'', ''/success'', serviceName ?M] = length ?reqs"
    and d: "histCount (httpDuration m') [''GET'', ''/success'', serviceName ?M] = length ?reqs"
    by (elim exE conjE)
  have c': "counterValue (httpRequests (fst (projr (InstrumentAll testHandler ?reqs ?M ()))))
              [''GET'', ''/success'', ''test-service''] = 3"
    using c by (simp only: a sum.sel fst_conv New_serviceName) simp
  have d': "histCount (httpDuration (fst (projr (InstrumentAll testHandler ?reqs ?M ()))))
              [''GET'', ''/success'', ''test-service''] = 3"
    using d by (simp only: a sum.sel fst_conv New_serviceName) simp
  show ?thesis by (intro conjI std new c' d')
qed


text \<open>
  What the instrumented handler does with the calls of the wrapped handler. On
  \<^verbatim>\<open>Metrics\<close> with the standard instruments it returns; the calls that reach the underlying
  writer are exactly the calls the wrapped handler makes on the writer it is handed,
  unchanged and in order, and the handler's own state is what the handler leaves. The wrapped
  handler is run on a writer that offers none of the optional interfaces, and on the
  \<^verbatim>\<open>Metrics\<close> after the request count. For a handler whose calls depend on neither, the
  writer and the handler's state are those of the wrapped handler run directly. Of the
  \<^verbatim>\<open>Metrics\<close> only the request counter, the duration histogram and, for a status of 400 or
  more, the error counter change.
\<close>

lemma instrument_forwards_calls:
  assumes "standardInstruments m"
  shows "\<exists>m'. Instrument handler w r elapsed m h
               = Inr ((fst (ServeHTTP handler (w\<lparr>implements := responseWriterImplements\<rparr>) r
                              (countedRequest r m) h))\<lparr>implements := implements w\<rparr>,
                      m',
                      snd (ServeHTTP handler (w\<lparr>implements := responseWriterImplements\<rparr>) r
                             (countedRequest r m) h)) \<and>
              ((\<forall>caps m0. handler caps r m0 h = handler (implements w) r m h) \<longrightarrow>
                 Instrument handler w r elapsed m h
                   = Inr (fst (ServeHTTP handler w r m h), m', snd (ServeHTTP handler w r m h))) \<and>
              m' = m\<lparr>httpRequests := incremented (requestKey r m) (httpRequests m),
                     httpDuration := observed (requestKey r m) elapsed (httpDuration m),
                     httpErrors := errorsAfter r
                       (capturedStatus (fst (handler responseWriterImplements r (countedRequest r m) h)))
                       m\<rparr>"
proof -
  obtain cs h' where hd: "handler responseWriterImplements r (countedRequest r m) h = (cs, h')"
    by (cases "handler responseWriterImplements r (countedRequest r m) h")
  let ?m' = "(countedRequest r m)\<lparr>httpDuration := observed (requestKey r m) elapsed (httpDuration m),
                   httpErrors := errorsAfter r (capturedStatus cs) m\<rparr>"
  have i: "Instrument handler w r elapsed m h = Inr (w\<lparr>received := received w @ cs\<rparr>, ?m', h')"
    by (rule Instrument_counted[where handler = handler, OF assms hd])
  have s: "ServeHTTP handler (w\<lparr>implements := responseWriterImplements\<rparr>) r (countedRequest r m) h
             = (w\<lparr>implements := responseWriterImplements, received := received w @ cs\<rparr>, h')"
    by (simp add: ServeHTTP_def hd deliver_all)
  have direct: "ServeHTTP handler w r m h = (w\<lparr>received := received w @ cs\<rparr>, h')"
    if a: "\<forall>caps m0. handler caps r m0 h = handler (implements w) r m h"
  proof -
    from a[rule_format, of responseWriterImplements "countedRequest r m"]
    have "handler (implements w) r m h = handler responseWriterImplements r (countedRequest r m) h"
      by simp
    then show ?thesis by (simp add: ServeHTTP_def hd deliver_all)
  qed
  have c1: "Instrument handler w r elapsed m h
               = Inr ((fst (ServeHTTP handler (w\<lparr>implements := responseWriterImplements\<rparr>) r
                              (countedRequest r m) h))\<lparr>implements := implements w\<rparr>,
                      ?m',
                      snd (ServeHTTP handler (w\<lparr>implements := responseWriterImplements\<rparr>) r
                             (countedRequest r m) h))"
    by (simp only: i s fst_conv snd_conv) simp
  have c2: "(\<forall>caps m0. handler caps r m0 h = handler (implements w) r m h) \<longrightarrow>
                 Instrument handler w r elapsed m h
                   = Inr (fst (ServeHTTP handler w r m h), ?m', snd (ServeHTTP handler w r m h))"
    using direct by (simp only: i fst_conv snd_conv) simp
  have c3: "?m' = m\<lparr>httpRequests := incremented (requestKey r m) (httpRequests m),
                     httpDuration := observed (requestKey r m) elapsed (httpDuration m),
                     httpErrors := errorsAfter r
                       (capturedStatus (fst (handler responseWriterImplements r (countedRequest r m) h)))
                       m\<rparr>"
    by (simp only: hd fst_conv) (simp add: countedRequest_def)
  from c1 c2 c3 show ?thesis by blast
qed

lemma instrument_forwards_calls_example:
  "standardInstruments (projr (New [])) \<and>
   (\<forall>caps m0. testHandler caps \<lparr>httpMethod = ''GET'', urlPath = ''/error''\<rparr> m0 ()
      = testHandler (implements \<lparr>implements = [Flusher], received = []\<rparr>)
          \<lparr>httpMethod = ''GET'', urlPath = ''/error''\<rparr> (projr (New [])) ()) \<and>
   fst (projr (Instrument testHandler \<lparr>implements = [Flusher], received = []\<rparr>
          \<lparr>httpMethod = ''GET'', urlPath = ''/error''\<rparr> 0 (projr (New [])) ()))
     = fst (ServeHTTP testHandler \<lparr>implements = [Flusher], received = []\<rparr>
          \<lparr>httpMethod = ''GET'', urlPath = ''/error''\<rparr> (projr (New [])) ()) \<and>
   received (fst (projr (Instrument testHandler \<lparr>implements = [Flusher], received = []\<rparr>
          \<lparr>httpMethod = ''GET'', urlPath = ''/error''\<rparr> 0 (projr (New [])) ())))
     = [CallWriteHeader 500]"
proof -
  let ?M = "projr (New [])"
  let ?W = "\<lparr>implements = [Flusher], received = []\<rparr>"
  let ?R = "\<lparr>httpMethod = ''GET'', urlPath = ''/error''\<rparr>"
  have std: "standardInstruments ?M" by (rule New_standard[OF New_plain(1)])
  have ign: "\<forall>caps m0. testHandler caps ?R m0 () = testHandler (implements ?W) ?R ?M ()"
    by (simp add: testHandler_def)
  from instrument_forwards_calls[where handler = testHandler and w = ?W and r = ?R and elapsed = 0
      and m = ?M and h = "()", OF std]
  obtain m' where "(\<forall>caps m0. testHandler caps ?R m0 () = testHandler (implements ?W) ?R ?M ()) \<longrightarrow>
      Instrument testHandler ?W ?R 0 ?M ()
        = Inr (fst (ServeHTTP testHandler ?W ?R ?M ()), m', snd (ServeHTTP testHandler ?W ?R ?M ()))"
    by (elim exE conjE)
  with ign have i: "Instrument testHandler ?W ?R 0 ?M ()
        = Inr (fst (ServeHTTP testHandler ?W ?R ?M ()), m', snd (ServeHTTP testHandler ?W ?R ?M ()))"
    by (rule rev_mp)
  have e: "fst (projr (Instrument testHandler ?W ?R 0 ?M ())) = fst (ServeHTTP testHandler ?W ?R ?M ())"
    by (simp only: i sum.sel fst_conv)
  have v: "received (fst (ServeHTTP testHandler ?W ?R ?M ())) = [CallWriteHeader 500]"
    by (simp add: ServeHTTP_def testHandler_def deliver_def)
  show ?thesis by (intro conjI std ign e) (simp only: e v)
qed

text \<open>
  C8. The handler that \<^verbatim>\<open>Instrument\<close> returns is to behave to the outside as the wrapped
  handler does, for every wrapped handler and every request: the same status code, headers
  and body reach the client. The comment on \<^verbatim>\<open>responseWriter\<close> says the same of the code:
  it captures status codes without altering the writer's behaviour. The code does not keep
  to it. The capturing writer has the three methods of \<^verbatim>\<open>http.ResponseWriter\<close> and no other,
  so a wrapped handler that asks its writer for \<^verbatim>\<open>http.Flusher\<close> is refused, whatever the
  underlying writer can do. Evaluated at such a handler and a writer that can flush: run
  directly the handler streams with status 200; run through the instrumented handler it
  answers 500.
\<close>

theorem instrument_hides_flusher:
  "standardInstruments (projr (New [])) \<and>
   received (fst (ServeHTTP streamHandler \<lparr>implements = [Flusher], received = []\<rparr>
          \<lparr>httpMethod = ''GET'', urlPath = ''/events''\<rparr> (projr (New [])) ()))
     = [SetHeader ''Content-Type'' ''text/event-stream'', CallWriteHeader 200,
        CallWrite ''data: tick''] \<and>
   Instrument streamHandler \<lparr>implements = [Flusher], received = []\<rparr>
          \<lparr>httpMethod = ''GET'', urlPath = ''/events''\<rparr> 0 (projr (New [])) ()
     = Inr (fst (projr (Instrument streamHandler \<lparr>implements = [Flusher], received = []\<rparr>
          \<lparr>httpMethod = ''GET'', urlPath = ''/events''\<rparr> 0 (projr (New [])) ())),
            snd (projr (Instrument streamHandler \<lparr>implements = [Flusher], received = []\<rparr>
          \<lparr>httpMethod = ''GET'', urlPath = ''/events''\<rparr> 0 (projr (New [])) ()))) \<and>
   received (fst (projr (Instrument streamHandler \<lparr>implements = [Flusher], received = []\<rparr>
          \<lparr>httpMethod = ''GET'', urlPath = ''/events''\<rparr> 0 (projr (New [])) ())))
     = [CallWriteHeader 500, CallWrite ''Streaming unsupported!'']"
proof -
  let ?M = "projr (New [])"
  let ?W = "\<lparr>implements = [Flusher], received = []\<rparr>"
  let ?R = "\<lparr>httpMethod = ''GET'', urlPath = ''/events''\<rparr>"
  have std: "standardInstruments ?M" by (rule New_standard[OF New_plain(1)])
  have hd: "streamHandler responseWriterImplements ?R (countedRequest ?R ?M) ()
              = ([CallWriteHeader 500, CallWrite ''Streaming unsupported!''], ())"
    by (simp add: streamHandler_def responseWriterImplements_def)
  note i = Instrument_counted[where handler = streamHandler and w = ?W and elapsed = 0, OF std hd]
  have d: "received (fst (ServeHTTP streamHandler ?W ?R ?M ()))
     = [SetHeader ''Content-Type'' ''text/event-stream'', CallWriteHeader 200, CallWrite ''data: tick'']"
    by (simp add: ServeHTTP_def streamHandler_def deliver_def)
  have r: "received (fst (projr (Instrument streamHandler ?W ?R 0 ?M ())))
     = [CallWriteHeader 500, CallWrite ''Streaming unsupported!'']"
    by (simp only: i sum.sel fst_conv) simp
  have t: "Instrument streamHandler ?W ?R 0 ?M ()
     = Inr (fst (projr (Instrument streamHandler ?W ?R 0 ?M ())),
            snd (projr (Instrument streamHandler ?W ?R 0 ?M ())))"
    by (simp only: i sum.sel prod.collapse)
  show ?thesis by (intro conjI std d t r)
qed

section \<open>Bucket profiles of custom histograms\<close>

text \<open>
  C5, as the code has it. \<^verbatim>\<open>New\<close> keeps as default profile what the options configure: the
  HTTP profile unless an option overrides it. A call of \<^verbatim>\<open>RegisterHistogram\<close> with the nil
  bucket list hands the histogram that default profile; when the default is the LLM-latency
  profile the histogram uses its boundaries as they are, not the HTTP ones. A bucket list
  that is not nil, the empty list among them, is handed to the histogram as it is.
\<close>

theorem histogram_nil_buckets:
  "(New opts = Inr m0 \<longrightarrow> histogramBuckets m0 = configuredBuckets opts) \<and>
   configuredBuckets [] = Some DefaultHTTPBuckets \<and>
   configuredBuckets [WithHistogramBuckets (Some DefaultLLMLatencyBuckets)]
     = Some DefaultLLMLatencyBuckets \<and>
   (RegisterHistogram name hlp None labels m = (Inr hv, m') \<longrightarrow>
      hBuckets hv = histogramBuckets m) \<and>
   (RegisterHistogram name hlp None labels m = (Inr hv, m') \<longrightarrow>
      histogramBuckets m = Some DefaultLLMLatencyBuckets \<longrightarrow>
      bucketsInUse hv = DefaultLLMLatencyBuckets \<and> bucketsInUse hv \<noteq> DefaultHTTPBuckets) \<and>
   (RegisterHistogram name hlp (Some bs) labels m = (Inr hv', m') \<longrightarrow> hBuckets hv' = Some bs)"
proof (intro conjI impI)
  assume "New opts = Inr m0"
  then show "histogramBuckets m0 = configuredBuckets opts"
    by (simp add: New_Inr(2) applyOptions_buckets)
next
  show "configuredBuckets [] = Some DefaultHTTPBuckets"
    by (simp add: configuredBuckets_def)
next
  show "configuredBuckets [WithHistogramBuckets (Some DefaultLLMLatencyBuckets)]
     = Some DefaultLLMLatencyBuckets"
    by (simp add: configuredBuckets_def)
next
  assume r: "RegisterHistogram name hlp None labels m = (Inr hv, m')"
  show "hBuckets hv = histogramBuckets m"
    by (simp add: RegisterHistogram_Inr(1)[OF r] NewHistogramVec_def)
next
  assume r: "RegisterHistogram name hlp None labels m = (Inr hv, m')"
    and l: "histogramBuckets m = Some DefaultLLMLatencyBuckets"
  have "hBuckets hv = Some DefaultLLMLatencyBuckets"
    using l by (simp add: RegisterHistogram_Inr(1)[OF r] NewHistogramVec_def)
  then have "bucketsInUse hv = DefaultLLMLatencyBuckets"
    using profiles_differ(3) by (simp add: bucketsInUse_def split: list.splits)
  then show "bucketsInUse hv = DefaultLLMLatencyBuckets" "bucketsInUse hv \<noteq> DefaultHTTPBuckets"
    using profiles_differ(1) by simp_all
next
  assume r: "RegisterHistogram name hlp (Some bs) labels m = (Inr hv', m')"
  show "hBuckets hv' = Some bs"
    by (simp add: RegisterHistogram_Inr(1)[OF r] NewHistogramVec_def)
qed

theorem histogram_nil_buckets_witness:
  "New [WithHistogramBuckets (Some DefaultLLMLatencyBuckets)]
     = Inr (projr (New [WithHistogramBuckets (Some DefaultLLMLatencyBuckets)])) \<and>
   histogramBuckets (projr (New [WithHistogramBuckets (Some DefaultLLMLatencyBuckets)]))
     = Some DefaultLLMLatencyBuckets \<and>
   RegisterHistogram ''llm_inference_seconds'' ''LLM inference duration in seconds'' None [''model'']
       (projr (New [WithHistogramBuckets (Some DefaultLLMLatencyBuckets)]))
     = (Inr (NewHistogramVec namespace subsystem ''llm_inference_seconds''
               ''LLM inference duration in seconds'' (Some DefaultLLMLatencyBuckets)
               [''model'', ''service'']),
        (projr (New [WithHistogramBuckets (Some DefaultLLMLatencyBuckets)]))
          \<lparr>registry := registry (projr (New [WithHistogramBuckets (Some DefaultLLMLatencyBuckets)]))
             @ [customDesc ''llm_inference_seconds'' ''LLM inference duration in seconds''
                  [''model'']]\<rparr>) \<and>
   bucketsInUse (NewHistogramVec namespace subsystem ''llm_inference_seconds''
               ''LLM inference duration in seconds'' (Some DefaultLLMLatencyBuckets)
               [''model'', ''service'']) = DefaultLLMLatencyBuckets \<and>
   RegisterHistogram ''llm_inference_seconds'' ''LLM inference duration in seconds''
       (Some DefaultMemoryBuckets) [''model'']
       (projr (New [WithHistogramBuckets (Some DefaultLLMLatencyBuckets)]))
     = (Inr (NewHistogramVec namespace subsystem ''llm_inference_seconds''
               ''LLM inference duration in seconds'' (Some DefaultMemoryBuckets)
               [''model'', ''service'']),
        (projr (New [WithHistogramBuckets (Some DefaultLLMLatencyBuckets)]))
          \<lparr>registry := registry (projr (New [WithHistogramBuckets (Some DefaultLLMLatencyBuckets)]))
             @ [customDesc ''llm_inference_seconds'' ''LLM inference duration in seconds''
                  [''model'']]\<rparr>) \<and>
   hBuckets (NewHistogramVec namespace subsystem ''llm_inference_seconds''
               ''LLM inference duration in seconds'' (Some DefaultMemoryBuckets)
               [''model'', ''service'']) = Some DefaultMemoryBuckets"
proof -
  let ?hm = "NewHistogramVec namespace subsystem ''llm_inference_seconds''
               ''LLM inference duration in seconds'' (Some DefaultMemoryBuckets)
               [''model'', ''service'']"
  let ?opts = "[WithHistogramBuckets (Some DefaultLLMLatencyBuckets)]"
  let ?M = "projr (New ?opts)"
  let ?hv = "NewHistogramVec namespace subsystem ''llm_inference_seconds''
               ''LLM inference duration in seconds'' (Some DefaultLLMLatencyBuckets)
               [''model'', ''service'']"
  let ?M' = "?M\<lparr>registry := registry ?M
             @ [customDesc ''llm_inference_seconds'' ''LLM inference duration in seconds'' [''model'']]\<rparr>"
  note t = histogram_nil_buckets[where opts = ?opts and ?m0.0 = ?M and m = ?M and m' = ?M'
      and name = "''llm_inference_seconds''" and hlp = "''LLM inference duration in seconds''"
      and labels = "[''model'']" and hv = ?hv and hv' = ?hm and bs = DefaultMemoryBuckets]
  have e: "New ?opts = Inr ?M" by (rule New_plain)
  have b: "histogramBuckets ?M = Some DefaultLLMLatencyBuckets"
    using t e by (simp only:) 
  have v: "validDesc (customDesc ''llm_inference_seconds'' ''LLM inference duration in seconds'' [''model''])"
    by (simp add: customDesc_def name_rules)
  have f: "fqName (customDesc ''llm_inference_seconds'' ''LLM inference duration in seconds'' [''model''])
             \<notin> set (registeredNames (registry ?M))"
    by (simp add: New_plain_names standardNames_def customDesc_def BuildFQName_def namespace_def
        subsystem_def)
  have r: "RegisterHistogram ''llm_inference_seconds'' ''LLM inference duration in seconds'' None
             [''model''] ?M = (Inr ?hv, ?M')"
    using RegisterHistogram_fresh[OF v f, of None] by (simp add: b)
  have u: "bucketsInUse ?hv = DefaultLLMLatencyBuckets"
    using t r b by blast
  have r': "RegisterHistogram ''llm_inference_seconds'' ''LLM inference duration in seconds''
             (Some DefaultMemoryBuckets) [''model''] ?M = (Inr ?hm, ?M')"
    using RegisterHistogram_fresh[OF v f, of "Some DefaultMemoryBuckets"] by simp
  have u': "hBuckets ?hm = Some DefaultMemoryBuckets"
    using t r' by blast
  show ?thesis by (intro conjI e b r u r' u')
qed

text \<open>
  The claim as the spec words it, for an empty bucket list as for an unset one, fails for the
  empty list that is not nil: on \<^verbatim>\<open>Metrics\<close> configured with the LLM-latency profile the
  histogram is given the empty list and falls back to the library's own default boundaries,
  not to the configured profile.
\<close>

theorem histogram_empty_buckets_counterexample:
  "histogramBuckets (projr (New [WithHistogramBuckets (Some DefaultLLMLatencyBuckets)]))
     = Some DefaultLLMLatencyBuckets \<and>
   RegisterHistogram ''llm_inference_seconds'' ''LLM inference duration in seconds'' (Some [])
       [''model''] (projr (New [WithHistogramBuckets (Some DefaultLLMLatencyBuckets)]))
     = (Inr (NewHistogramVec namespace subsystem ''llm_inference_seconds''
               ''LLM inference duration in seconds'' (Some []) [''model'', ''service'']),
        (projr (New [WithHistogramBuckets (Some DefaultLLMLatencyBuckets)]))
          \<lparr>registry := registry (projr (New [WithHistogramBuckets (Some DefaultLLMLatencyBuckets)]))
             @ [customDesc ''llm_inference_seconds'' ''LLM inference duration in seconds''
                  [''model'']]\<rparr>) \<and>
   hBuckets (NewHistogramVec namespace subsystem ''llm_inference_seconds''
               ''LLM inference duration in seconds'' (Some []) [''model'', ''service'']) = Some [] \<and>
   bucketsInUse (NewHistogramVec namespace subsystem ''llm_inference_seconds''
               ''LLM inference duration in seconds'' (Some []) [''model'', ''service''])
     = DefBuckets \<and>
   DefBuckets \<noteq> DefaultLLMLatencyBuckets"
proof -
  let ?opts = "[WithHistogramBuckets (Some DefaultLLMLatencyBuckets)]"
  let ?M = "projr (New ?opts)"
  have b: "histogramBuckets ?M = Some DefaultLLMLatencyBuckets"
    using New_Inr(2)[OF New_plain(3), of "Some DefaultLLMLatencyBuckets"]
    by (simp add: applyOptions_buckets configuredBuckets_def)
  have v: "validDesc (customDesc ''llm_inference_seconds'' ''LLM inference duration in seconds'' [''model''])"
    by (simp add: customDesc_def name_rules)
  have f: "fqName (customDesc ''llm_inference_seconds'' ''LLM inference duration in seconds'' [''model''])
             \<notin> set (registeredNames (registry ?M))"
    by (simp add: New_plain_names standardNames_def customDesc_def BuildFQName_def namespace_def
        subsystem_def)
  have r: "RegisterHistogram ''llm_inference_seconds'' ''LLM inference duration in seconds'' (Some [])
             [''model''] ?M
     = (Inr (NewHistogramVec namespace subsystem ''llm_inference_seconds''
               ''LLM inference duration in seconds'' (Some []) [''model'', ''service'']),
        ?M\<lparr>registry := registry ?M
             @ [customDesc ''llm_inference_seconds'' ''LLM inference duration in seconds''
                  [''model'']]\<rparr>)"
    using RegisterHistogram_fresh[OF v f, of "Some []"] by simp
  have h: "hBuckets (NewHistogramVec namespace subsystem ''llm_inference_seconds''
               ''LLM inference duration in seconds'' (Some []) [''model'', ''service'']) = Some []"
    by (simp add: NewHistogramVec_def)
  have u: "bucketsInUse (NewHistogramVec namespace subsystem ''llm_inference_seconds''
               ''LLM inference duration in seconds'' (Some []) [''model'', ''service''])
     = DefBuckets"
    by (simp add: NewHistogramVec_def bucketsInUse_def)
  show ?thesis by (intro conjI b r h u profiles_differ(2))
qed

section \<open>The service label\<close>





section \<open>Incrementing and decrementing the standard gauge\<close>

text \<open>
  C10, as the code has it. On \<^verbatim>\<open>Metrics\<close> with the standard instruments, \<^verbatim>\<open>IncrementGauge\<close> and
  then \<^verbatim>\<open>DecrementGauge\<close> on one name both return; every other label combination of the
  gauge is as it was after each of the two calls, the gauge keeps its descriptor, and nothing
  of the \<^verbatim>\<open>Metrics\<close> but the gauge changes. The value for the name and the service is the
  value before the two calls whenever that value is a whole number of magnitude below
  \<open>2 ^ 53\<close>, zero for a gauge not yet touched among them: there both additions are exact.
\<close>

theorem gauge_inc_dec:
  assumes "standardInstruments m"
  shows "\<exists>m1 m2. IncrementGauge name m = Inr m1 \<and> DecrementGauge name m1 = Inr m2 \<and>
           (\<forall>n. gaugeValue (serviceGauge m) [name, serviceName m] = of_int n \<longrightarrow> \<bar>n\<bar> < 2 ^ 53 \<longrightarrow>
                gaugeValue (serviceGauge m2) [name, serviceName m]
                  = gaugeValue (serviceGauge m) [name, serviceName m]) \<and>
           (\<forall>k. k \<noteq> [name, serviceName m] \<longrightarrow>
                gChildren (serviceGauge m1) k = gChildren (serviceGauge m) k \<and>
                gChildren (serviceGauge m2) k = gChildren (serviceGauge m) k) \<and>
           gDesc (serviceGauge m1) = gDesc (serviceGauge m) \<and>
           gDesc (serviceGauge m2) = gDesc (serviceGauge m) \<and>
           m1\<lparr>serviceGauge := serviceGauge m\<rparr> = m \<and>
           m2\<lparr>serviceGauge := serviceGauge m\<rparr> = m"
proof -
  let ?k = "[name, serviceName m]"
  let ?g1 = "(serviceGauge m)\<lparr>gChildren := (gChildren (serviceGauge m))
               (?k \<mapsto> f64add (gaugeValue (serviceGauge m) ?k) 1)\<rparr>"
  let ?m1 = "m\<lparr>serviceGauge := ?g1\<rparr>"
  let ?g2 = "?g1\<lparr>gChildren := (gChildren ?g1)(?k \<mapsto> f64add (gaugeValue ?g1 ?k) (- 1))\<rparr>"
  let ?m2 = "?m1\<lparr>serviceGauge := ?g2\<rparr>"
  have i: "IncrementGauge name m = Inr ?m1"
    by (rule IncrementGauge_standard[OF assms])
  have s1: "standardInstruments ?m1"
    by (rule standard_gauge_upd[OF assms])
  have d: "DecrementGauge name ?m1 = Inr ?m2"
    using DecrementGauge_standard[OF s1, of name] by simp
  have v: "gaugeValue (serviceGauge ?m2) ?k
             = f64add (f64add (gaugeValue (serviceGauge m) ?k) 1) (- 1)"
    by (simp add: gaugeValue_upd)
  have r: "\<forall>n. gaugeValue (serviceGauge m) ?k = of_int n \<longrightarrow> \<bar>n\<bar> < 2 ^ 53 \<longrightarrow>
             gaugeValue (serviceGauge ?m2) ?k = gaugeValue (serviceGauge m) ?k"
  proof (intro allI impI)
    fix n :: int
    assume e: "gaugeValue (serviceGauge m) ?k = of_int n" and b: "\<bar>n\<bar> < 2 ^ 53"
    show "gaugeValue (serviceGauge ?m2) ?k = gaugeValue (serviceGauge m) ?k"
      by (simp only: v) (simp only: e inc_dec_int[OF b])
  qed
  have o: "\<forall>k. k \<noteq> ?k \<longrightarrow>
             gChildren (serviceGauge ?m1) k = gChildren (serviceGauge m) k \<and>
             gChildren (serviceGauge ?m2) k = gChildren (serviceGauge m) k"
    by simp
  have e1: "gDesc (serviceGauge ?m1) = gDesc (serviceGauge m)" by simp
  have e2: "gDesc (serviceGauge ?m2) = gDesc (serviceGauge m)" by simp
  have f1: "?m1\<lparr>serviceGauge := serviceGauge m\<rparr> = m" by simp
  have f2: "?m2\<lparr>serviceGauge := serviceGauge m\<rparr> = m" by simp
  show ?thesis
    by (rule exI[of _ ?m1], rule exI[of _ ?m2]) (intro conjI i d r o e1 e2 f1 f2)
qed

theorem gauge_inc_dec_witness:
  "standardInstruments (projr (New [])) \<and>
   gaugeValue (serviceGauge (projr (New []))) [''active_connections'', ''default''] = of_int 0 \<and>
   \<bar>0::int\<bar> < 2 ^ 53 \<and>
   gaugeValue (serviceGauge (projr (IncrementGauge ''active_connections'' (projr (New [])))))
       [''active_connections'', ''default''] = 1 \<and>
   gaugeValue (serviceGauge (projr (DecrementGauge ''active_connections''
       (projr (IncrementGauge ''active_connections'' (projr (New [])))))))
       [''active_connections'', ''default''] = 0 \<and>
   gChildren (serviceGauge (projr (DecrementGauge ''active_connections''
       (projr (IncrementGauge ''active_connections'' (projr (New [])))))))
       [''queue_depth'', ''default'']
     = gChildren (serviceGauge (projr (New []))) [''queue_depth'', ''default'']"
proof -
  let ?M = "projr (New [])"
  let ?k = "[''active_connections'', ''default'']"
  have std: "standardInstruments ?M" by (rule New_standard[OF New_plain(1)])
  have z: "gaugeValue (serviceGauge ?M) ?k = of_int 0"
    by (simp add: New_fresh_values[OF New_plain(1)])
  have b: "\<bar>0::int\<bar> < 2 ^ 53" by simp
  from gauge_inc_dec[OF std, of "''active_connections''"]
  obtain m1 m2 where i: "IncrementGauge ''active_connections'' ?M = Inr m1"
    and d: "DecrementGauge ''active_connections'' m1 = Inr m2"
    and r: "\<forall>n. gaugeValue (serviceGauge ?M) [''active_connections'', serviceName ?M] = of_int n
              \<longrightarrow> \<bar>n\<bar> < 2 ^ 53 \<longrightarrow>
              gaugeValue (serviceGauge m2) [''active_connections'', serviceName ?M]
                = gaugeValue (serviceGauge ?M) [''active_connections'', serviceName ?M]"
    and o: "\<forall>k. k \<noteq> [''active_connections'', serviceName ?M] \<longrightarrow>
              gChildren (serviceGauge m1) k = gChildren (serviceGauge ?M) k \<and>
              gChildren (serviceGauge m2) k = gChildren (serviceGauge ?M) k"
    by (elim exE conjE)
  have n: "serviceName ?M = ''default''" by (rule New_serviceName(2))
  have v2: "gaugeValue (serviceGauge m2) ?k = 0"
    using r[unfolded n, rule_format, OF z b] z by simp
  have v1: "gaugeValue (serviceGauge (projr (IncrementGauge ''active_connections'' ?M))) ?k = 1"
    unfolding IncrementGauge_standard[OF std] sum.sel n
    using z by (simp add: gaugeValue_upd f64add_def round64_int[of 1, simplified])
  have o2: "gChildren (serviceGauge m2) [''queue_depth'', ''default'']
              = gChildren (serviceGauge ?M) [''queue_depth'', ''default'']"
    using o[unfolded n, rule_format, of "[''queue_depth'', ''default'']"] by simp
  show ?thesis
    unfolding i d sum.sel
    by (intro conjI std z b v1[unfolded i sum.sel] v2 o2)
qed

text \<open>
  The claim as it is worded, for every state of the registry, fails where the addition
  rounds: a gauge set to \<open>2 ^ 53\<close> is still \<open>2 ^ 53\<close> after the increment, the exact sum
  lying halfway between two values of the type, and is \<open>2 ^ 53 - 1\<close> after the decrement.
\<close>

theorem gauge_inc_dec_counterexample:
  "gaugeValue (serviceGauge (projr (SetGauge ''queue_depth'' 9007199254740992 (projr (New [])))))
       [''queue_depth'', ''default''] = 9007199254740992 \<and>
   gaugeValue (serviceGauge (projr (IncrementGauge ''queue_depth''
       (projr (SetGauge ''queue_depth'' 9007199254740992 (projr (New [])))))))
       [''queue_depth'', ''default''] = 9007199254740992 \<and>
   gaugeValue (serviceGauge (projr (DecrementGauge ''queue_depth''
       (projr (IncrementGauge ''queue_depth''
         (projr (SetGauge ''queue_depth'' 9007199254740992 (projr (New [])))))))))
       [''queue_depth'', ''default''] = 9007199254740991"
proof -
  let ?M = "projr (New [])"
  let ?k = "[''queue_depth'', ''default'']"
  have std: "standardInstruments ?M" by (rule New_standard[OF New_plain(1)])
  have n: "serviceName ?M = ''default''" by (rule New_serviceName(2))
  let ?S = "?M\<lparr>serviceGauge := (serviceGauge ?M)
              \<lparr>gChildren := (gChildren (serviceGauge ?M))(?k \<mapsto> 9007199254740992)\<rparr>\<rparr>"
  have s: "SetGauge ''queue_depth'' 9007199254740992 ?M = Inr ?S"
    using SetGauge_standard[OF std, of "''queue_depth''" 9007199254740992] by (simp only: n)
  have stdS: "standardInstruments ?S" by (rule standard_gauge_upd[OF std])
  have nS: "serviceName ?S = ''default''" using n by simp
  have vS: "gaugeValue (serviceGauge ?S) ?k = 9007199254740992" by (simp add: gaugeValue_upd)
  have p: "f64add 9007199254740992 1 = 9007199254740992"
          "f64add 9007199254740992 (- 1) = 9007199254740991"
    by code_simp+
  let ?I = "?S\<lparr>serviceGauge := (serviceGauge ?S)
              \<lparr>gChildren := (gChildren (serviceGauge ?S))(?k \<mapsto> 9007199254740992)\<rparr>\<rparr>"
  have i: "IncrementGauge ''queue_depth'' ?S = Inr ?I"
    using IncrementGauge_standard[OF stdS, of "''queue_depth''"] by (simp only: nS vS p)
  have stdI: "standardInstruments ?I" by (rule standard_gauge_upd[OF stdS])
  have nI: "serviceName ?I = ''default''" using n by simp
  have vI: "gaugeValue (serviceGauge ?I) ?k = 9007199254740992" by (simp add: gaugeValue_upd)
  let ?D = "?I\<lparr>serviceGauge := (serviceGauge ?I)
              \<lparr>gChildren := (gChildren (serviceGauge ?I))(?k \<mapsto> 9007199254740991)\<rparr>\<rparr>"
  have d: "DecrementGauge ''queue_depth'' ?I = Inr ?D"
    using DecrementGauge_standard[OF stdI, of "''queue_depth''"] by (simp only: nI vI p)
  have vD: "gaugeValue (serviceGauge ?D) ?k = 9007199254740991" by (simp add: gaugeValue_upd)
  show ?thesis
    unfolding s sum.sel i d
    by (intro conjI vS vI vD)
qed

end
